theory Spec2Isabelle
  imports Complex_Main "HOL-Library.Log_Nat"
begin

section \<open>Python strings\<close>

text \<open>
  Strings are \<^typ>\<open>string\<close>. The whitespace of \<^verbatim>\<open>str.split()\<close> and
  \<^verbatim>\<open>str.strip()\<close> is the ASCII part of Python's set: tab, line feed, vertical tab,
  form feed, carriage return, the four separators 0x1C..0x1F and the space. Case mapping
  is the ASCII one.
\<close>

definition is_space :: "char \<Rightarrow> bool" where
  "is_space c = (c \<in> set [CHR 0x09, CHR 0x0A, CHR 0x0B, CHR 0x0C, CHR 0x0D,
                            CHR 0x1C, CHR 0x1D, CHR 0x1E, CHR 0x1F, CHR 0x20])"

text \<open>\<^verbatim>\<open>s.split()\<close>: the maximal runs of non-whitespace, in order. The first argument
  is the token being read.\<close>

fun split_from :: "string \<Rightarrow> string \<Rightarrow> string list" where
  "split_from cur [] = (if cur = [] then [] else [cur])"
| "split_from cur (c # cs) =
     (if is_space c then (if cur = [] then split_from [] cs else cur # split_from [] cs)
      else split_from (cur @ [c]) cs)"

definition py_split :: "string \<Rightarrow> string list" where
  "py_split s = split_from [] s"

text \<open>\<^verbatim>\<open>sep.join(xs)\<close>\<close>

fun py_join :: "string \<Rightarrow> string list \<Rightarrow> string" where
  "py_join sep [] = []"
| "py_join sep [x] = x"
| "py_join sep (x # y # ys) = x @ sep @ py_join sep (y # ys)"

text \<open>\<^verbatim>\<open>s.strip()\<close>\<close>

definition py_strip :: "string \<Rightarrow> string" where
  "py_strip s = rev (dropWhile is_space (rev (dropWhile is_space s)))"

definition upper_letters :: string where
  "upper_letters = ''ABCDEFGHIJKLMNOPQRSTUVWXYZ''"

definition lower_letters :: string where
  "lower_letters = ''abcdefghijklmnopqrstuvwxyz''"

definition lower_char :: "char \<Rightarrow> char" where
  "lower_char c = (case map_of (zip upper_letters lower_letters) c of
                     None \<Rightarrow> c | Some d \<Rightarrow> d)"

definition upper_char :: "char \<Rightarrow> char" where
  "upper_char c = (case map_of (zip lower_letters upper_letters) c of
                     None \<Rightarrow> c | Some d \<Rightarrow> d)"

definition py_lower :: "string \<Rightarrow> string" where
  "py_lower s = map lower_char s"

definition py_upper :: "string \<Rightarrow> string" where
  "py_upper s = map upper_char s"

text \<open>\<^verbatim>\<open>k in s\<close> on strings: \<open>k\<close> occurs in \<open>s\<close> as a contiguous run.\<close>

fun starts_with :: "string \<Rightarrow> string \<Rightarrow> bool" where
  "starts_with [] s = True"
| "starts_with (k # ks) [] = False"
| "starts_with (k # ks) (c # cs) = (k = c \<and> starts_with ks cs)"

fun py_in :: "string \<Rightarrow> string \<Rightarrow> bool" where
  "py_in k [] = (k = [])"
| "py_in k (c # cs) = (starts_with k (c # cs) \<or> py_in k cs)"

text \<open>\<^verbatim>\<open>xs[:k]\<close>: a negative bound counts from the end.\<close>

definition slice_to :: "'a list \<Rightarrow> int \<Rightarrow> 'a list" where
  "slice_to xs k = (if 0 \<le> k then take (nat k) xs else take (nat (int (length xs) + k)) xs)"

text \<open>\<^verbatim>\<open>int(x)\<close> on a float: truncation towards zero.\<close>

definition py_int :: "real \<Rightarrow> int" where
  "py_int x = (if 0 \<le> x then \<lfloor>x\<rfloor> else \<lceil>x\<rceil>)"

section \<open>Python floats\<close>

text \<open>
  A float is a binary64 number, taken as the real number it stands for. \<open>fl x\<close> is the
  float nearest to \<open>x\<close>, ties going to the even significand: with \<open>e = ilog2 \<bar>x\<bar> - 52\<close>
  the quotient \<open>\<bar>x\<bar> / 2 ^ e\<close> lies in \<open>[2 ^ 52, 2 ^ 53)\<close> and is rounded to an integer.
  Every operation on floats is the exact one followed by \<open>fl\<close>. Overflow and the subnormal
  range are not modelled.
\<close>

definition ilog2 :: "real \<Rightarrow> int" where
  "ilog2 x = (if 1 \<le> x then bitlen \<lfloor>x\<rfloor> - 1 else - bitlen (\<lceil>1 / x\<rceil> - 1))"

definition round_half_even :: "real \<Rightarrow> int" where
  "round_half_even x =
     (let f = \<lfloor>x\<rfloor>; d = x - of_int f in
      if d < 1 / 2 then f else if 1 / 2 < d then f + 1 else if even f then f else f + 1)"

definition fl :: "real \<Rightarrow> real" where
  "fl x =
     (if x = 0 then 0
      else
        let e = ilog2 \<bar>x\<bar> - 52;
            m = round_half_even (\<bar>x\<bar> / 2 powi e)
        in sgn x * of_int m * 2 powi e)"

text \<open>\<^verbatim>\<open>float(i)\<close>, also where an integer meets a float in an operation.\<close>

definition py_float :: "int \<Rightarrow> real" where
  "py_float i = fl (of_int i)"

definition fmul :: "real \<Rightarrow> real \<Rightarrow> real" where
  "fmul x y = fl (x * y)"

definition fdiv :: "real \<Rightarrow> real \<Rightarrow> real" where
  "fdiv x y = fl (x / y)"

definition fadd :: "real \<Rightarrow> real \<Rightarrow> real" where
  "fadd x y = fl (x + y)"

definition fsub :: "real \<Rightarrow> real \<Rightarrow> real" where
  "fsub x y = fl (x - y)"

text \<open>\<^verbatim>\<open>a / b\<close> on two integers: the quotient, rounded once.\<close>

definition int_truediv :: "int \<Rightarrow> int \<Rightarrow> real" where
  "int_truediv a b = fl (of_int a / of_int b)"

section \<open>Text helpers of the video maker\<close>

text \<open>\<^verbatim>\<open>clamp_words(s, max_words)\<close>; \<^verbatim>\<open>s or ""\<close> turns \<^verbatim>\<open>None\<close> into the empty
  string.\<close>

definition clamp_words :: "string option \<Rightarrow> int \<Rightarrow> string" where
  "clamp_words s max_words =
     (let toks = py_split (case s of None \<Rightarrow> [] | Some t \<Rightarrow> t)
      in py_join '' '' (slice_to toks max_words))"

text \<open>\<^verbatim>\<open>apply_title_case(s, style)\<close>\<close>

definition apply_title_case :: "string option \<Rightarrow> string \<Rightarrow> string" where
  "apply_title_case s0 style =
     (let s = py_strip (case s0 of None \<Rightarrow> [] | Some t \<Rightarrow> t) in
      if style = ''upper'' then py_upper s
      else if style = ''sentence'' then py_upper (take 1 s) @ drop 1 s
      else s)"

section \<open>Errors\<close>

text \<open>
  The exceptions that can leave the functions below: of Python, division by zero and
  \<^verbatim>\<open>int(s, 16)\<close> on a string that is no number; of the imaging library, the size checks
  of \<^verbatim>\<open>Image.new\<close> and \<^verbatim>\<open>Image.resize\<close>, a file that \<^verbatim>\<open>Image.open\<close> cannot read and a
  font that cannot be loaded; of MoviePy, what \<^verbatim>\<open>CompositeVideoClip\<close> raises on the
  argument it is given.
\<close>

datatype py_error =
    ZeroDivisionError | ValueError | OSError | TypeError | AttributeError | IndexError

section \<open>Colours\<close>

datatype colour = RGBA int int int int

definition hex_digits :: "(char \<times> int) list" where
  "hex_digits = zip ''0123456789abcdefABCDEF''
                    [0, 1, 2, 3, 4, 5, 6, 7, 8, 9, 10, 11, 12, 13, 14, 15, 10, 11, 12, 13, 14, 15]"

text \<open>
  \<^verbatim>\<open>int(s, 16)\<close> on a string of at most two characters, which is what \<^verbatim>\<open>hex_to_rgb\<close>
  passes: whitespace around the number is dropped, a sign may stand before one digit. The
  prefix \<^verbatim>\<open>0x\<close> and the underscore need three characters to form a number.
\<close>

definition int16 :: "string \<Rightarrow> py_error + int" where
  "int16 s =
     (case py_strip s of
        [] \<Rightarrow> Inl ValueError
      | [a] \<Rightarrow> (case map_of hex_digits a of None \<Rightarrow> Inl ValueError | Some x \<Rightarrow> Inr x)
      | [a, b] \<Rightarrow>
          (case map_of hex_digits b of
             None \<Rightarrow> Inl ValueError
           | Some y \<Rightarrow>
               if a = CHR ''+'' then Inr y
               else if a = CHR ''-'' then Inr (- y)
               else (case map_of hex_digits a of
                       None \<Rightarrow> Inl ValueError
                     | Some x \<Rightarrow> Inr (16 * x + y)))
      | a # b # d # ds \<Rightarrow> Inl ValueError)"

text \<open>\<^verbatim>\<open>hex_to_rgb(h)\<close>\<close>

definition hex_to_rgb :: "string \<Rightarrow> py_error + (int \<times> int \<times> int)" where
  "hex_to_rgb h0 =
     (let h = dropWhile (\<lambda>ch. ch = CHR ''#'') h0 in
      case int16 (take 2 h) of
        Inl err \<Rightarrow> Inl err
      | Inr r \<Rightarrow>
          (case int16 (take 2 (drop 2 h)) of
             Inl err \<Rightarrow> Inl err
           | Inr g \<Rightarrow>
               (case int16 (take 2 (drop 4 h)) of
                  Inl err \<Rightarrow> Inl err
                | Inr b \<Rightarrow> Inr (r, g, b))))"

section \<open>Images\<close>

text \<open>A bitmap is its size and a description of how its pixels were made.\<close>

datatype font = TitleFont | BodyFont | RibbonFont | DefaultFont

datatype image = Image (im_w: int) (im_h: int) (im_pic: picture)
and picture =
    Decoded string
  | Solid colour
  | DrawText image int int string colour font
  | DrawRect image int int int int colour
  | Resampled image
  | Composite image image int int

text \<open>\<^verbatim>\<open>Image.new("RGBA", (w, h), colour)\<close>\<close>

definition image_new :: "int \<Rightarrow> int \<Rightarrow> colour \<Rightarrow> py_error + image" where
  "image_new w h c = (if w < 0 \<or> h < 0 then Inl ValueError else Inr (Image w h (Solid c)))"

text \<open>\<^verbatim>\<open>im.resize((w, h), Image.LANCZOS)\<close>: a copy when the size is unchanged, an error
  when a side is below one pixel.\<close>

definition resize :: "image \<Rightarrow> int \<times> int \<Rightarrow> py_error + image" where
  "resize im new_size =
     (if (im_w im, im_h im) = new_size then Inr im
      else if fst new_size < 1 \<or> snd new_size < 1 then Inl ValueError
      else Inr (Image (fst new_size) (snd new_size) (Resampled im)))"

text \<open>\<^verbatim>\<open>base.alpha_composite(im, (x, y))\<close>, returning the updated base.\<close>

definition alpha_composite :: "image \<Rightarrow> image \<Rightarrow> int \<times> int \<Rightarrow> image" where
  "alpha_composite base im dest =
     Image (im_w base) (im_h base) (Composite base im (fst dest) (snd dest))"

text \<open>\<^verbatim>\<open>ImageDraw.Draw(im).text((x, y), txt, fill=c, font=f)\<close>\<close>

definition draw_text :: "image \<Rightarrow> int \<times> int \<Rightarrow> string \<Rightarrow> colour \<Rightarrow> font \<Rightarrow> image" where
  "draw_text im xy txt c f = Image (im_w im) (im_h im) (DrawText im (fst xy) (snd xy) txt c f)"

text \<open>\<^verbatim>\<open>ImageDraw.Draw(im).rectangle([x0, y0, x1, y1], fill=c)\<close>\<close>

definition draw_rectangle :: "image \<Rightarrow> int \<Rightarrow> int \<Rightarrow> int \<Rightarrow> int \<Rightarrow> colour \<Rightarrow> image" where
  "draw_rectangle im x0 y0 x1 y1 c = Image (im_w im) (im_h im) (DrawRect im x0 y0 x1 y1 c)"

section \<open>Configuration and environment\<close>

text \<open>
  The keys of the YAML configuration that the modelled code reads. A key read with
  \<^verbatim>\<open>cfg.get(key, default)\<close> is optional; a key read with \<^verbatim>\<open>cfg[key]\<close> is present. The
  ratio and the duration are floats.
\<close>

record cfg =
  frame_width :: int
  frame_height :: int
  left_panel_ratio :: real
  edge_padding_px :: int
  text_line_spacing_px :: int
  title_case_style :: "string option"
  text_max_words_per_bullet :: int
  bullet_color_hex :: string
  background_color :: string
  logo_path :: "string option"
  logo_position :: string
  logo_margin_px :: int
  safe_area_inset_px :: int
  duration_per_slide :: real
  max_slides :: int
  remove_bg :: "bool option"
  upscale_to_min_side_px :: "int option"
  images_folder :: string
  skip_col :: "string option"
  image_col :: string
  title_col :: string
  bullets_cols :: "string list"
  barcode_filename_keywords :: "string list option"
  dimensions_col :: "string option"
  capacity_col :: "string option"
  dimension_marking :: "bool option"
  music_path :: "string option"
  output_path :: "string option"

text \<open>\<^verbatim>\<open>cfg.get(key, default)\<close>\<close>

definition get_or :: "'a option \<Rightarrow> 'a \<Rightarrow> 'a" where
  "get_or v d = (case v of None \<Rightarrow> d | Some x \<Rightarrow> x)"

text \<open>
  What the run finds outside the program. A font is the function
  \<^verbatim>\<open>draw.textsize(s, font)\<close> that gives the rendered size of a string; the title and the
  body font are loaded at their size in \<^verbatim>\<open>render_text_panel\<close>, and \<open>None\<close> stands for a
  font that cannot be loaded there. Further: the files that \<^verbatim>\<open>Image.open\<close> can decode
  (\<open>None\<close>: it raises), the optional background remover (\<open>None\<close>: \<^verbatim>\<open>rembg\<close> is not
  installed; a result \<open>None\<close>: it raises; it keeps the size of the bitmap), the paths
  that exist, and the duration of the audio files that \<^verbatim>\<open>AudioFileClip\<close> can read.
\<close>

type_synonym metric = "string \<Rightarrow> int \<times> int"

record env =
  title_font :: "metric option"
  body_font :: "metric option"
  image_open :: "string \<Rightarrow> image option"
  rembg_remove :: "(picture \<Rightarrow> picture option) option"
  path_exists :: "string \<Rightarrow> bool"
  audio_file :: "string \<Rightarrow> real option"

section \<open>Text panel\<close>

text \<open>The arrow glyph U+27A4 and the bullet U+2022, as UTF-8.\<close>

definition arrow :: string where
  "arrow = [CHR 0xE2, CHR 0x9E, CHR 0xA4]"

definition bullet_sep :: string where
  "bullet_sep = [CHR 0x20, CHR 0xE2, CHR 0x80, CHR 0xA2, CHR 0x20]"

text \<open>
  \<^verbatim>\<open>wrap_text(txt, font, max_w)\<close>, nested in \<^verbatim>\<open>render_text_panel\<close>: \<open>ts\<close> is
  \<^verbatim>\<open>draw.textsize\<close> in the font, \<open>pad\<close> the padding of the enclosing function. The loop
  carries \<^verbatim>\<open>lines\<close> and \<^verbatim>\<open>cur\<close>.
\<close>

fun wrap_loop :: "metric \<Rightarrow> int \<Rightarrow> int \<Rightarrow> string list \<Rightarrow> string list \<Rightarrow> string \<Rightarrow> string list" where
  "wrap_loop ts pad max_w [] lines cur = (if cur \<noteq> [] then lines @ [cur] else lines)"
| "wrap_loop ts pad max_w (w # ws) lines cur =
     (let test = py_strip (cur @ '' '' @ w); bw = fst (ts test) in
      if bw \<le> max_w - pad * 2 then wrap_loop ts pad max_w ws lines test
      else wrap_loop ts pad max_w ws (if cur \<noteq> [] then lines @ [cur] else lines) w)"

definition wrap_text :: "metric \<Rightarrow> int \<Rightarrow> string \<Rightarrow> int \<Rightarrow> string list" where
  "wrap_text ts pad txt max_w = wrap_loop ts pad max_w (py_split txt) [] []"

text \<open>The loop over the title lines: the canvas and the pen height \<open>y\<close>.\<close>

fun draw_title_lines :: "metric \<Rightarrow> int \<Rightarrow> int \<Rightarrow> string list \<Rightarrow> image \<Rightarrow> int \<Rightarrow> image \<times> int" where
  "draw_title_lines ts pad line_gap [] canvas y = (canvas, y)"
| "draw_title_lines ts pad line_gap (line # lines) canvas y =
     draw_title_lines ts pad line_gap lines
       (draw_text canvas (pad, y) line (RGBA 0 0 0 255) TitleFont)
       (y + snd (ts line) + line_gap)"

text \<open>The loop over the bullets; \<open>bullet_color\<close> is the colour parsed at the head of
  \<^verbatim>\<open>render_text_panel\<close>.\<close>

fun draw_bullets ::
  "metric \<Rightarrow> cfg \<Rightarrow> int \<times> int \<times> int \<Rightarrow> string list \<Rightarrow> image \<Rightarrow> int \<Rightarrow> image \<times> int" where
  "draw_bullets ts c bullet_color [] canvas y = (canvas, y)"
| "draw_bullets ts c bullet_color (b0 # bs) canvas y =
     (if b0 = [] then draw_bullets ts c bullet_color bs canvas y
      else
        let b = clamp_words (Some b0) (text_max_words_per_bullet c);
            pad = edge_padding_px c;
            canvas1 = draw_text canvas (pad, y) arrow
                        (RGBA (fst bullet_color) (fst (snd bullet_color)) (snd (snd bullet_color)) 255)
                        BodyFont;
            aw = fst (ts arrow); ah = snd (ts arrow);
            canvas2 = draw_text canvas1 (pad + aw + 18, y) b (RGBA 0 0 0 255) BodyFont;
            th = snd (ts b)
        in draw_bullets ts c bullet_color bs canvas2 (y + max ah th + text_line_spacing_px c))"

text \<open>
  \<^verbatim>\<open>render_text_panel(text_title, bullets, cfg, fonts)\<close>. In the order of the source:
  the bullet colour is parsed, the canvas is made, the two fonts are loaded at their
  size, the title is wrapped and drawn, then the bullets.
\<close>

definition render_text_panel :: "env \<Rightarrow> string \<Rightarrow> string list \<Rightarrow> cfg \<Rightarrow> py_error + image" where
  "render_text_panel e text_title bullets c =
     (let W = frame_width c; H = frame_height c;
          panel_w = py_int (fmul (py_float W) (left_panel_ratio c));
          panel_h = H;
          pad = edge_padding_px c;
          line_gap = text_line_spacing_px c
      in case hex_to_rgb (bullet_color_hex c) of
           Inl err \<Rightarrow> Inl err
         | Inr bullet_color \<Rightarrow>
         (case image_new panel_w panel_h (RGBA 255 255 255 0) of
           Inl err \<Rightarrow> Inl err
         | Inr canvas \<Rightarrow>
         (case title_font e of
           None \<Rightarrow> Inl OSError
         | Some title_textsize \<Rightarrow>
         (case body_font e of
           None \<Rightarrow> Inl OSError
         | Some body_textsize \<Rightarrow>
             let title = apply_title_case (Some text_title) (get_or (title_case_style c) ''standard'');
                 title_lines = wrap_text title_textsize pad title (panel_w - 2 * pad);
                 drawn = draw_title_lines title_textsize pad line_gap title_lines canvas pad;
                 drawn2 = draw_bullets body_textsize c bullet_color bullets
                            (fst drawn) (snd drawn + line_gap)
             in Inr (fst drawn2)))))"

section \<open>Image preparation and logo\<close>

text \<open>\<^verbatim>\<open>remove_bg_if_possible(im)\<close>\<close>

definition remove_bg_if_possible :: "env \<Rightarrow> image \<Rightarrow> image" where
  "remove_bg_if_possible e im =
     (case rembg_remove e of
        None \<Rightarrow> im
      | Some rembg \<Rightarrow>
          (case rembg (im_pic im) of
             None \<Rightarrow> im
           | Some out \<Rightarrow> Image (im_w im) (im_h im) out))"

text \<open>\<^verbatim>\<open>upscale_min_side(im, min_side)\<close>\<close>

definition upscale_min_side :: "image \<Rightarrow> int \<Rightarrow> py_error + image" where
  "upscale_min_side im min_side =
     (let w = im_w im; h = im_h im in
      if min w h \<ge> min_side then Inr im
      else if min w h = 0 then Inl ZeroDivisionError
      else
        let scale = int_truediv min_side (min w h)
        in resize im (py_int (fmul (py_float w) scale), py_int (fmul (py_float h) scale)))"

text \<open>
  \<^verbatim>\<open>paste_logo(frame_im, logo_im, cfg)\<close>. The source updates the frame in place; the
  model returns the frame, and with it the logo as pasted and its corner.
\<close>

definition paste_logo :: "image \<Rightarrow> image \<Rightarrow> cfg \<Rightarrow> py_error + (image \<times> image \<times> int \<times> int)" where
  "paste_logo frame_im logo_im c =
     (let margin = logo_margin_px c;
          W = im_w frame_im;
          lw = im_w logo_im; lh = im_h logo_im
      in if lw = 0 then Inl ZeroDivisionError
         else
           let scale = min 1 (fdiv (fmul (py_float W) (fl (18 / 100))) (py_float lw))
           in case (if scale \<noteq> 1
                    then resize logo_im (py_int (fmul (py_float lw) scale),
                                         py_int (fmul (py_float lh) scale))
                    else Inr logo_im) of
                Inl err \<Rightarrow> Inl err
              | Inr logo2 \<Rightarrow>
                  let lw2 = im_w logo2;
                      x = (if logo_position c = ''top_right'' then W - lw2 - margin else margin);
                      y = margin
                  in Inr (alpha_composite frame_im logo2 (x, y), logo2, x, y))"

text \<open>\<^verbatim>\<open>Path(p).name\<close>: the last component of a path.\<close>

definition path_name :: "string \<Rightarrow> string" where
  "path_name p =
     rev (takeWhile (\<lambda>ch. ch \<noteq> CHR ''/'') (dropWhile (\<lambda>ch. ch = CHR ''/'') (rev p)))"

text \<open>\<^verbatim>\<open>folder / file\<close>: an absolute \<open>file\<close> replaces the folder.\<close>

definition path_join :: "string \<Rightarrow> string \<Rightarrow> string" where
  "path_join folder file =
     (if starts_with ''/'' file then file
      else if folder = [] then file
      else if last folder = CHR ''/'' then folder @ file
      else folder @ ''/'' @ file)"

text \<open>
  The \<^verbatim>\<open>try\<close> block that opens the product image: when \<^verbatim>\<open>Image.open\<close> raises, a gray
  bitmap of 800 by 800 pixels with the name of the file written on it takes its place.
\<close>

definition missing_image :: "string \<Rightarrow> image" where
  "missing_image img_path =
     draw_text (Image 800 800 (Solid (RGBA 230 230 230 255))) (40, 40)
       (''Missing image:'' @ [CHR 0x0A] @ path_name img_path) (RGBA 80 80 80 255) DefaultFont"

definition open_product_image :: "env \<Rightarrow> string \<Rightarrow> image" where
  "open_product_image e img_path =
     (case image_open e img_path of
        Some im \<Rightarrow> im
      | None \<Rightarrow> missing_image img_path)"

section \<open>Entrance motion\<close>



text \<open>The same function with every operation rounded, as the position functions of a
  slide evaluate it on the float \<open>t\<close> that MoviePy passes; \<open>d\<close> is the float \<^verbatim>\<open>0.6\<close>.\<close>

definition ease_out_cubic_float :: "real \<Rightarrow> real \<Rightarrow> real" where
  "ease_out_cubic_float t d =
     (if t \<ge> d then 1 else (let p = fsub (fdiv t d) 1 in fadd (fmul (fmul p p) p) 1))"

section \<open>Clips\<close>

text \<open>
  The audio and video clips of MoviePy, as far as the program builds them. A video clip
  has a start time on the timeline of the composition that holds it and a duration; a
  clip is created with start 0, and the program never moves one. A composition plays
  each of its layers from the layer's own start, later layers above earlier ones.
\<close>

datatype audio =
    AudioFileClip string real
  | Concatenated "audio list"
  | Subclip audio real real
  | Volumex audio real

text \<open>The duration: of a concatenation the running sum of the durations, of
  \<^verbatim>\<open>subclip(t0, t1)\<close> the difference \<^verbatim>\<open>t1 - t0\<close>, where a negative \<^verbatim>\<open>t1\<close> counts from
  the end.\<close>

fun audio_duration :: "audio \<Rightarrow> real" where
  "audio_duration (AudioFileClip p d) = d"
| "audio_duration (Concatenated tracks) = foldl fadd 0 (map audio_duration tracks)"
| "audio_duration (Subclip a t0 t1) =
     (if t1 < 0 then fsub (fadd (audio_duration a) t1) t0 else fsub t1 t0)"
| "audio_duration (Volumex a g) = audio_duration a"

datatype clip =
    ImageClip (clip_image: image) (clip_pos: "real \<Rightarrow> int \<times> int")
              (clip_start: real) (clip_duration: real)
  | CompositeVideoClip (clip_layers: "clip list")
              (clip_start: real) (clip_duration: real) (clip_audio: "audio option")

definition clip_end :: "clip \<Rightarrow> real" where
  "clip_end cl = fadd (clip_start cl) (clip_duration cl)"

text \<open>The time interval a clip occupies on the timeline of its composition.\<close>

definition clip_interval :: "clip \<Rightarrow> real \<times> real" where
  "clip_interval cl = (clip_start cl, clip_end cl)"

primrec present :: "'a option list \<Rightarrow> 'a list" where
  "present [] = []"
| "present (x # xs) = (case x of None \<Rightarrow> present xs | Some y \<Rightarrow> y # present xs)"

text \<open>\<^verbatim>\<open>max(ends)\<close> on a list that is not empty.\<close>

fun max_list :: "real list \<Rightarrow> real" where
  "max_list [] = 0"
| "max_list [x] = x"
| "max_list (x # y # ys) = max x (max_list (y # ys))"

text \<open>\<^verbatim>\<open>ImageClip(np.array(im)).set_duration(d)\<close>\<close>

definition image_clip :: "image \<Rightarrow> real \<Rightarrow> clip" where
  "image_clip im d = ImageClip im (\<lambda>t. (0, 0)) 0 d"

fun set_position :: "clip \<Rightarrow> (real \<Rightarrow> int \<times> int) \<Rightarrow> clip" where
  "set_position (ImageClip im pos st d) f = ImageClip im f st d"
| "set_position (CompositeVideoClip ls st d a) f = CompositeVideoClip ls st d a"

fun set_duration :: "clip \<Rightarrow> real \<Rightarrow> clip" where
  "set_duration (ImageClip im pos st d) d' = ImageClip im pos st d'"
| "set_duration (CompositeVideoClip ls st d a) d' = CompositeVideoClip ls st d' a"

fun set_audio :: "clip \<Rightarrow> audio \<Rightarrow> clip" where
  "set_audio (ImageClip im pos st d) a = ImageClip im pos st d"
| "set_audio (CompositeVideoClip ls st d a0) a = CompositeVideoClip ls st d (Some a)"

text \<open>
  The argument of \<^verbatim>\<open>CompositeVideoClip(clips)\<close>: a list, or the iterator over a list
  that \<^verbatim>\<open>[...].__iter__()\<close> gives. An entry is a clip or \<^verbatim>\<open>None\<close>.
\<close>

datatype 'a py_seq = PyList "'a list" | PyIter "'a list"

text \<open>
  \<^verbatim>\<open>CompositeVideoClip(clips)\<close>. The constructor begins with \<^verbatim>\<open>clips[0].size\<close>: an
  iterator cannot be subscripted (\<^verbatim>\<open>TypeError\<close>), an empty list has no first entry
  (\<^verbatim>\<open>IndexError\<close>), and \<^verbatim>\<open>None\<close> has no attribute \<^verbatim>\<open>size\<close>, nor the attribute \<^verbatim>\<open>end\<close>
  that is read of every entry afterwards (\<^verbatim>\<open>AttributeError\<close>). A composition of clips
  starts at 0, lasts until its last layer ends, and has no audio when no layer has any,
  which is so for every clip the program composes.
\<close>

definition composite_video_clip :: "clip option py_seq \<Rightarrow> py_error + clip" where
  "composite_video_clip clips =
     (case clips of
        PyIter xs \<Rightarrow> Inl TypeError
      | PyList xs \<Rightarrow>
          if xs = [] then Inl IndexError
          else if list_ex Option.is_none xs then Inl AttributeError
          else Inr (CompositeVideoClip (present xs) 0 (max_list (map clip_end (present xs))) None))"

section \<open>One slide\<close>

text \<open>\<^verbatim>\<open>avail_w\<close> and \<^verbatim>\<open>avail_h\<close> of \<^verbatim>\<open>build_slide_clip\<close>: the pane right of the text
  panel, less the safe-area inset on each side.\<close>

definition right_pane :: "cfg \<Rightarrow> int \<times> int" where
  "right_pane c =
     (let W = frame_width c; H = frame_height c;
          panel_w = py_int (fmul (py_float W) (left_panel_ratio c))
      in (W - panel_w - safe_area_inset_px c * 2, H - safe_area_inset_px c * 2))"

text \<open>The position functions \<^verbatim>\<open>panel_pos\<close>, \<^verbatim>\<open>prod_pos\<close> and the one of the logo layer.\<close>

definition panel_pos :: "int \<Rightarrow> real \<Rightarrow> int \<times> int" where
  "panel_pos panel_w t =
     (py_int (fadd (py_float (- panel_w))
                   (fmul (ease_out_cubic_float t (fl (6 / 10))) (py_float panel_w))), 0)"

definition prod_pos :: "int \<Rightarrow> int \<Rightarrow> int \<Rightarrow> real \<Rightarrow> int \<times> int" where
  "prod_pos W rx ry t =
     (py_int (fadd (py_float W)
                   (fmul (py_float (rx - W)) (ease_out_cubic_float t (fl (6 / 10))))), ry)"

definition logo_pos :: "int \<Rightarrow> image \<Rightarrow> cfg \<Rightarrow> real \<Rightarrow> int \<times> int" where
  "logo_pos W logo_rgba c t = (W - im_w logo_rgba - logo_margin_px c, logo_margin_px c)"

text \<open>
  \<^verbatim>\<open>build_slide_clip(img_path, title, bullets, cfg, fonts, logo_rgba)\<close>, in two steps.
  \<open>slide_layers\<close> is the function up to the list of layers that it writes down for
  \<^verbatim>\<open>CompositeVideoClip\<close>: the canvas, the text panel, the product image and the logo, the
  last being \<^verbatim>\<open>None\<close> without a logo. The advisory blur check only prints and is left
  out. The bitmap \<^verbatim>\<open>composed\<close>, on which \<^verbatim>\<open>paste_logo\<close> works, goes into \<^verbatim>\<open>base_clip\<close>,
  which is not among the layers; an exception of \<^verbatim>\<open>paste_logo\<close> still ends the
  function.
\<close>

definition slide_layers ::
  "env \<Rightarrow> string \<Rightarrow> string \<Rightarrow> string list \<Rightarrow> cfg \<Rightarrow> image option \<Rightarrow> py_error + clip option list" where
  "slide_layers e img_path title bullets c logo_rgba =
     (let W = frame_width c; H = frame_height c;
          panel_w = py_int (fmul (py_float W) (left_panel_ratio c));
          per = duration_per_slide c;
          inset = safe_area_inset_px c
      in
      case hex_to_rgb (background_color c) of
        Inl err \<Rightarrow> Inl err
      | Inr bg_rgb \<Rightarrow>
      (case image_new W H (RGBA (fst bg_rgb) (fst (snd bg_rgb)) (snd (snd bg_rgb)) 255) of
        Inl err \<Rightarrow> Inl err
      | Inr bg \<Rightarrow>
      (case render_text_panel e title bullets c of
        Inl err \<Rightarrow> Inl err
      | Inr panel_im \<Rightarrow>
      (let im0 = open_product_image e img_path;
           im1 = (if get_or (remove_bg c) True then remove_bg_if_possible e im0 else im0)
       in
       case upscale_min_side im1 (get_or (upscale_to_min_side_px c) 1000) of
         Inl err \<Rightarrow> Inl err
       | Inr im \<Rightarrow>
       (let avail_w = fst (right_pane c); avail_h = snd (right_pane c);
            iw = im_w im; ih = im_h im
        in
        if iw = 0 \<or> ih = 0 then Inl ZeroDivisionError
        else
          let scale = min (int_truediv avail_w iw) (int_truediv avail_h ih);
              new_size = (py_int (fmul (py_float iw) scale), py_int (fmul (py_float ih) scale))
          in
          case resize im new_size of
            Inl err \<Rightarrow> Inl err
          | Inr im_resized \<Rightarrow>
          (let composed0 = alpha_composite bg panel_im (0, 0);
               rx = panel_w + (avail_w - fst new_size) div 2 + inset;
               ry = (H - snd new_size) div 2;
               composed1 = alpha_composite composed0 im_resized (rx, ry)
           in
           case (case logo_rgba of
                   None \<Rightarrow> Inr composed1
                 | Some logo \<Rightarrow> map_sum id fst (paste_logo composed1 logo c)) of
             Inl err \<Rightarrow> Inl err
           | Inr composed \<Rightarrow>
               Inr [Some (image_clip bg per),
                    Some (set_position (image_clip panel_im per) (panel_pos panel_w)),
                    Some (set_position (image_clip im_resized per) (prod_pos W rx ry)),
                    (case logo_rgba of
                       None \<Rightarrow> None
                     | Some logo \<Rightarrow>
                         Some (set_position (image_clip logo per) (logo_pos W logo c)))]))))))"

text \<open>The last statement of \<^verbatim>\<open>build_slide_clip\<close> hands \<^verbatim>\<open>CompositeVideoClip\<close> the
  iterator \<^verbatim>\<open>[...].__iter__()\<close> over the layers.\<close>

definition build_slide_clip ::
  "env \<Rightarrow> string \<Rightarrow> string \<Rightarrow> string list \<Rightarrow> cfg \<Rightarrow> image option \<Rightarrow> py_error + clip" where
  "build_slide_clip e img_path title bullets c logo_rgba =
     (case slide_layers e img_path title bullets c logo_rgba of
        Inl err \<Rightarrow> Inl err
      | Inr layers \<Rightarrow> composite_video_clip (PyIter layers))"

section \<open>Spreadsheet rows\<close>

text \<open>
  A row of the data frame maps a column name to a cell: text, an integer, a boolean, or
  the missing value of an empty cell. \<open>py_str\<close> is \<^verbatim>\<open>str(cell)\<close>; floating-point cells
  other than the missing value are not modelled.
\<close>

datatype cell = CStr string | CInt int | CBool bool | CNaN

type_synonym row = "string \<Rightarrow> cell option"

definition digit_char :: "nat \<Rightarrow> char" where
  "digit_char n = ''0123456789'' ! n"

function str_nat :: "nat \<Rightarrow> string" where
  "str_nat n = (if n < 10 then [digit_char n] else str_nat (n div 10) @ [digit_char (n mod 10)])"
  by pat_completeness auto
termination
  by (relation "measure id") auto

fun py_str :: "cell \<Rightarrow> string" where
  "py_str (CStr s) = s"
| "py_str (CInt i) = (if i < 0 then ''-'' @ str_nat (nat (- i)) else str_nat (nat i))"
| "py_str (CBool b) = (if b then ''True'' else ''False'')"
| "py_str CNaN = ''nan''"

text \<open>\<^verbatim>\<open>str(row.get(col, ""))\<close>\<close>

definition row_str :: "row \<Rightarrow> string \<Rightarrow> string" where
  "row_str r col = py_str (case r col of None \<Rightarrow> CStr [] | Some v \<Rightarrow> v)"

text \<open>The three filters of the loop of \<^verbatim>\<open>main\<close>.\<close>

definition skip_words :: "string list" where
  "skip_words = [''1'', ''true'', ''yes'', ''y'']"

definition row_skipped :: "cfg \<Rightarrow> row \<Rightarrow> bool" where
  "row_skipped c r =
     (py_lower (py_strip (row_str r (get_or (skip_col c) ''skip''))) \<in> set skip_words)"

definition row_image_file :: "cfg \<Rightarrow> row \<Rightarrow> string" where
  "row_image_file c r = py_strip (row_str r (image_col c))"

definition looks_like_barcode :: "cfg \<Rightarrow> string \<Rightarrow> bool" where
  "looks_like_barcode c image_file =
     list_ex (\<lambda>k. py_in k (py_lower image_file)) (get_or (barcode_filename_keywords c) [])"

section \<open>The run\<close>

text \<open>The ribbon with capacity and dimensions that \<^verbatim>\<open>main\<close> lays over a slide; here
  \<^verbatim>\<open>CompositeVideoClip\<close> is given a list.\<close>

definition add_ribbon :: "cfg \<Rightarrow> row \<Rightarrow> clip \<Rightarrow> py_error + clip" where
  "add_ribbon c r cl =
     (let dim_txt = py_strip (row_str r (get_or (dimensions_col c) []));
          cap_txt = py_strip (row_str r (get_or (capacity_col c) []));
          overlay_txt = py_join bullet_sep (filter (\<lambda>t. t \<noteq> []) [cap_txt, dim_txt])
      in
      if overlay_txt \<noteq> [] \<and> get_or (dimension_marking c) True then
        (let W = frame_width c; H = frame_height c in
         case image_new W H (RGBA 0 0 0 0) of
           Inl err \<Rightarrow> Inl err
         | Inr base \<Rightarrow>
             let box_w = py_int (fmul (py_float W) (fl (28 / 100))); box_h = 64;
                 x = safe_area_inset_px c; y = H - box_h - safe_area_inset_px c;
                 base1 = draw_rectangle base x y (x + box_w) (y + box_h) (RGBA 0 0 0 122);
                 base2 = draw_text base1 (x + 12, y + 12) overlay_txt (RGBA 255 255 255 255) RibbonFont;
                 ribbon_clip = image_clip base2 (duration_per_slide c)
             in composite_video_clip (PyList [Some cl, Some ribbon_clip]))
      else Inr cl)"

text \<open>The body of the loop for a row that passed the filters.\<close>

definition slide_of_row :: "env \<Rightarrow> cfg \<Rightarrow> image option \<Rightarrow> row \<Rightarrow> string \<Rightarrow> py_error + clip" where
  "slide_of_row e c logo_rgba r image_file =
     (let img_path = path_join (images_folder c) image_file;
          title = py_strip (row_str r (title_col c));
          bullets = filter (\<lambda>v. v \<noteq> []) (map (\<lambda>col. py_strip (row_str r col)) (bullets_cols c))
      in case build_slide_clip e img_path title bullets c logo_rgba of
           Inl err \<Rightarrow> Inl err
         | Inr cl \<Rightarrow> add_ribbon c r cl)"

text \<open>The loop over the rows; \<open>slides\<close> is the list built so far.\<close>

fun slides_loop :: "env \<Rightarrow> cfg \<Rightarrow> image option \<Rightarrow> row list \<Rightarrow> clip list \<Rightarrow> py_error + clip list" where
  "slides_loop e c logo_rgba [] slides = Inr slides"
| "slides_loop e c logo_rgba (r # rows) slides =
     (if int (length slides) \<ge> max_slides c then Inr slides
      else if row_skipped c r then slides_loop e c logo_rgba rows slides
      else if row_image_file c r = [] then slides_loop e c logo_rgba rows slides
      else if looks_like_barcode c (row_image_file c r) then slides_loop e c logo_rgba rows slides
      else
        case slide_of_row e c logo_rgba r (row_image_file c r) of
          Inl err \<Rightarrow> Inl err
        | Inr cl \<Rightarrow> slides_loop e c logo_rgba rows (slides @ [cl]))"

text \<open>Loading the logo.\<close>

definition load_logo :: "env \<Rightarrow> cfg \<Rightarrow> py_error + image option" where
  "load_logo e c =
     (case logo_path c of
        None \<Rightarrow> Inr None
      | Some p \<Rightarrow>
          if p \<noteq> [] \<and> path_exists e p then
            (case image_open e p of None \<Rightarrow> Inl OSError | Some im \<Rightarrow> Inr (Some im))
          else Inr None)"

text \<open>The assembly of the timeline: \<^verbatim>\<open>CompositeVideoClip(slides)\<close> on the list of
  slides, then \<^verbatim>\<open>set_duration(per * len(slides))\<close>.\<close>

definition assemble_video :: "cfg \<Rightarrow> clip list \<Rightarrow> py_error + clip" where
  "assemble_video c slides =
     (case composite_video_clip (PyList (map Some slides)) of
        Inl err \<Rightarrow> Inl err
      | Inr v \<Rightarrow>
          Inr (set_duration v (fmul (duration_per_slide c) (py_float (int (length slides))))))"

text \<open>The audio block of \<^verbatim>\<open>main\<close>; the gain is the float \<^verbatim>\<open>0.9\<close>.\<close>

definition attach_audio :: "env \<Rightarrow> cfg \<Rightarrow> clip \<Rightarrow> py_error + clip" where
  "attach_audio e c video =
     (case music_path c of
        None \<Rightarrow> Inr video
      | Some p \<Rightarrow>
          if p \<noteq> [] \<and> path_exists e p then
            (case audio_file e p of
               None \<Rightarrow> Inl OSError
             | Some d \<Rightarrow>
                 let audio0 = AudioFileClip p d;
                     vd = clip_duration video
                 in
                 if audio_duration audio0 < vd \<and> audio_duration audio0 = 0 then Inl ZeroDivisionError
                 else
                   let audio1 =
                         (if audio_duration audio0 < vd
                          then Concatenated
                                 (replicate (nat \<lceil>fdiv vd (audio_duration audio0)\<rceil>) audio0)
                          else audio0);
                       audio2 = Volumex (Subclip audio1 0 vd) (fl (9 / 10))
                   in Inr (set_audio video audio2))
          else Inr video)"

text \<open>
  \<^verbatim>\<open>main()\<close>, on the rows that \<^verbatim>\<open>pd.read_excel\<close> returned. It ends by writing the
  video file, by \<^verbatim>\<open>sys.exit\<close> after printing a message, or by an exception.
\<close>

datatype outcome = Written string clip | SysExit int string | Raised py_error

definition no_slides_message :: string where
  "no_slides_message = ''No slides to render. Check your Excel and image paths.''"

definition main :: "env \<Rightarrow> cfg \<Rightarrow> row list \<Rightarrow> outcome" where
  "main e c rows =
     (case load_logo e c of
        Inl err \<Rightarrow> Raised err
      | Inr logo_rgba \<Rightarrow>
          (case slides_loop e c logo_rgba rows [] of
             Inl err \<Rightarrow> Raised err
           | Inr slides \<Rightarrow>
               if slides = [] then SysExit 1 no_slides_message
               else
                 (case assemble_video c slides of
                    Inl err \<Rightarrow> Raised err
                  | Inr video \<Rightarrow>
                      (case attach_audio e c video of
                         Inl err \<Rightarrow> Raised err
                       | Inr v \<Rightarrow> Written (get_or (output_path c) ''outputs/final_video.mp4'') v))))"

text \<open>A row that one of the three filters removes.\<close>

definition row_excluded :: "cfg \<Rightarrow> row \<Rightarrow> bool" where
  "row_excluded c r =
     (row_skipped c r \<or> row_image_file c r = [] \<or> looks_like_barcode c (row_image_file c r))"

text \<open>The layer at a place of the list that \<open>slide_layers\<close> returns: the product image is
  at place 2, the logo at place 3.\<close>

definition slide_layer :: "nat \<Rightarrow> py_error + clip option list \<Rightarrow> clip option" where
  "slide_layer n res =
     (case res of
        Inl err \<Rightarrow> None
      | Inr layers \<Rightarrow> (case drop n layers of [] \<Rightarrow> None | l # ls \<Rightarrow> l))"

text \<open>The exception that ends a run or a call, if one does.\<close>

definition raised :: "outcome \<Rightarrow> py_error option" where
  "raised out =
     (case out of
        Written p v \<Rightarrow> None
      | SysExit n msg \<Rightarrow> None
      | Raised err \<Rightarrow> Some err)"

definition error_of :: "py_error + 'a \<Rightarrow> py_error option" where
  "error_of res = (case res of Inl err \<Rightarrow> Some err | Inr x \<Rightarrow> None)"

section \<open>A configuration and inputs to run the model on\<close>

text \<open>The configuration that \<^verbatim>\<open>streamlit_app.py\<close> writes for the 2:1 frame, without logo
  and music.\<close>

definition app_cfg :: cfg where
  "app_cfg = \<lparr>frame_width = 1920, frame_height = 960, left_panel_ratio = 1 / 2,
     edge_padding_px = 48, text_line_spacing_px = 10, title_case_style = Some ''standard'',
     text_max_words_per_bullet = 4, bullet_color_hex = ''#78185A'',
     background_color = ''#FFFFFF'', logo_path = Some [], logo_position = ''top_right'',
     logo_margin_px = 28, safe_area_inset_px = 48, duration_per_slide = 5, max_slides = 5,
     remove_bg = Some True, upscale_to_min_side_px = Some 1000, images_folder = ''images'',
     skip_col = Some ''skip'', image_col = ''image_filename'', title_col = ''title'',
     bullets_cols = [''bullet1'', ''bullet2'', ''bullet3''],
     barcode_filename_keywords = Some [''barcode'', ''qr'', ''code128''],
     dimensions_col = Some ''dimensions_text'', capacity_col = Some ''capacity_text'',
     dimension_marking = Some True, music_path = Some [],
     output_path = Some ''outputs/final_video.mp4''\<rparr>"

text \<open>A fixed-pitch font: every character is \<open>w\<close> pixels wide and \<open>2 * w\<close> high.\<close>

definition mono :: "int \<Rightarrow> metric" where
  "mono w s = (w * int (length s), 2 * w)"

definition test_env :: env where
  "test_env = \<lparr>title_font = Some (mono 20), body_font = Some (mono 20),
     image_open = (\<lambda>p. if p = ''images/a.png'' then Some (Image 1200 800 (Decoded p))
                        else if p = ''images/b.png'' then Some (Image 500 500 (Decoded p))
                        else if p = ''logo.png'' then Some (Image 1000 400 (Decoded p))
                        else None),
     rembg_remove = None,
     path_exists = (\<lambda>p. p \<in> set [''images/a.png'', ''images/b.png'', ''logo.png'', ''music.mp3'']),
     audio_file = (\<lambda>p. if p = ''music.mp3'' then Some 10 else None)\<rparr>"

definition row_a :: row where
  "row_a = map_of [(''image_filename'', CStr ''a.png''), (''title'', CStr ''Widget''),
                   (''bullet1'', CStr ''Fast and light''),
                   (''bullet2'', CStr ''Two year warranty included here''),
                   (''skip'', CStr ''no'')]"

definition row_b :: row where
  "row_b = map_of [(''image_filename'', CStr ''b.png''), (''title'', CStr ''Gadget''),
                   (''skip'', CInt 0)]"

definition row_skip :: row where
  "row_skip = map_of [(''image_filename'', CStr ''a.png''), (''title'', CStr ''Hidden''),
                      (''skip'', CBool True)]"

definition row_missing :: row where
  "row_missing = map_of [(''image_filename'', CStr ''gone.png''), (''title'', CStr ''Lost'')]"

definition test_logo :: image where
  "test_logo = Image 1000 400 (Decoded ''logo.png'')"



text \<open>A token of \<^verbatim>\<open>split()\<close>: non-empty and free of whitespace.\<close>

definition word_ok :: "string \<Rightarrow> bool" where
  "word_ok w = (w \<noteq> [] \<and> (\<forall>c \<in> set w. \<not> is_space c))"

section \<open>Splitting and joining\<close>

lemma split_from_word:
  "\<forall>c \<in> set w. \<not> is_space c \<Longrightarrow> split_from cur (w @ rest) = split_from (cur @ w) rest"
  by (induction w arbitrary: cur) auto

lemma split_from_tokens:
  "\<forall>c \<in> set cur. \<not> is_space c \<Longrightarrow> \<forall>t \<in> set (split_from cur s). word_ok t"
proof (induction s arbitrary: cur)
  case Nil
  then show ?case by (simp add: word_ok_def)
next
  case (Cons c cs)
  show ?case
  proof (cases "is_space c")
    case True
    have "\<forall>t \<in> set (split_from [] cs). word_ok t" by (rule Cons.IH) simp
    then show ?thesis using True Cons.prems by (simp add: word_ok_def)
  next
    case False
    have "\<forall>t \<in> set (split_from (cur @ [c]) cs). word_ok t"
      by (rule Cons.IH) (use False Cons.prems in simp)
    then show ?thesis using False by simp
  qed
qed

lemma py_split_tokens: "t \<in> set (py_split s) \<Longrightarrow> word_ok t"
  using split_from_tokens [of "[]" s] by (simp add: py_split_def)

lemma is_space_blank: "is_space CHR '' ''"
  by (simp add: is_space_def)

lemma split_from_join:
  "\<forall>w \<in> set ws. word_ok w \<Longrightarrow> ws \<noteq> [] \<Longrightarrow> split_from [] (py_join '' '' ws) = ws"
proof (induction ws rule: induct_list012)
  case 1 then show ?case by simp
next
  case (2 x)
  then have "split_from [] (x @ []) = split_from ([] @ x) []"
    by (intro split_from_word) (simp add: word_ok_def)
  with 2 show ?case by (simp add: word_ok_def)
next
  case (3 x y ys)
  have x: "\<forall>c \<in> set x. \<not> is_space c" "x \<noteq> []" using 3 by (simp_all add: word_ok_def)
  have "split_from [] (x @ '' '' @ py_join '' '' (y # ys)) = split_from x ('' '' @ py_join '' '' (y # ys))"
    using split_from_word [OF x(1), of "[]"] by simp
  also have "\<dots> = x # split_from [] (py_join '' '' (y # ys))"
    using x(2) by (simp add: is_space_blank)
  finally show ?case using 3 by simp
qed

lemma py_split_join:
  "\<forall>w \<in> set ws. word_ok w \<Longrightarrow> py_split (py_join '' '' ws) = ws"
  by (cases "ws = []") (simp_all add: py_split_def split_from_join)

lemma clamp_words_tokens:
  "py_split (clamp_words s k) = slice_to (py_split (case s of None \<Rightarrow> [] | Some t \<Rightarrow> t)) k"
  unfolding clamp_words_def Let_def
  by (rule py_split_join) (auto simp: slice_to_def dest!: in_set_takeD py_split_tokens)

section \<open>Rounding to a float\<close>

text \<open>The exponent is the one power of two at or below the number, so a float can be
  computed from bounds on its argument; an integer below \<open>2 ^ 53\<close> in absolute value is a
  float.\<close>

lemma bitlen_pos: "0 < f \<Longrightarrow> 1 \<le> bitlen f"
proof (rule ccontr)
  assume f: "0 < f" and "\<not> 1 \<le> bitlen f"
  then have "nat (bitlen f) = 0" by simp
  with bitlen_bounds [OF f] have "f < 1" by simp
  with f show False by simp
qed

lemma ilog2_eqI:
  assumes "0 < x" and "2 powi k \<le> x" and "x < 2 powi (k + 1)"
  shows "ilog2 x = k"
proof (cases "1 \<le> x")
  case True
  define f where "f = \<lfloor>x\<rfloor>"
  have f1: "1 \<le> f" using True by (simp add: f_def le_floor_iff)
  then have fpos: "0 < f" by simp
  have fx: "of_int f \<le> x" "x < of_int f + 1" by (simp_all add: f_def)
  have b: "2 ^ nat (bitlen f - 1) \<le> f" "f < 2 ^ nat (bitlen f)"
    using bitlen_bounds [OF fpos] by simp_all
  have bl: "1 \<le> bitlen f" using fpos by (rule bitlen_pos)
  have k0: "0 \<le> k"
  proof (rule ccontr)
    assume "\<not> 0 \<le> k"
    then have "k + 1 \<le> 0" by simp
    then have "(2::real) powi (k + 1) \<le> 2 powi 0" by (intro power_int_increasing) simp_all
    with assms(3) True show False by simp
  qed
  have "(2::real) ^ nat k \<le> x" using assms(2) k0 by (simp add: power_int_def)
  moreover have "(2::real) ^ nat k = of_int (2 ^ nat k)" by simp
  ultimately have "(2::int) ^ nat k \<le> f" unfolding f_def by (simp only: le_floor_iff)
  with b(2) have "(2::int) ^ nat k < 2 ^ nat (bitlen f)" by linarith
  then have "nat k < nat (bitlen f)" by (simp add: power_strict_increasing_iff)
  then have le1: "k \<le> bitlen f - 1" using k0 by linarith
  have "of_int f < (2::real) powi (k + 1)" using fx(1) assms(3) by linarith
  then have "of_int f < (2::real) ^ nat (k + 1)" using k0 by (simp add: power_int_def)
  moreover have "(2::real) ^ nat (k + 1) = of_int (2 ^ nat (k + 1))" by simp
  ultimately have "f < 2 ^ nat (k + 1)" by (simp only: of_int_less_iff)
  with b(1) have "(2::int) ^ nat (bitlen f - 1) < 2 ^ nat (k + 1)" by linarith
  then have "nat (bitlen f - 1) < nat (k + 1)" by (simp add: power_strict_increasing_iff)
  then have "bitlen f - 1 \<le> k" using bl by linarith
  with le1 True show ?thesis by (simp add: ilog2_def f_def)
next
  case False
  then have x1: "x < 1" by simp
  define c where "c = \<lceil>1 / x\<rceil>"
  have inv: "1 < 1 / x" using assms(1) x1 by simp
  have c2: "2 \<le> c" unfolding c_def using inv by linarith
  then have cpos: "0 < c - 1" by simp
  have cx: "of_int c - 1 < 1 / x" "1 / x \<le> of_int c" unfolding c_def by linarith+
  have b: "2 ^ nat (bitlen (c - 1) - 1) \<le> c - 1" "c - 1 < 2 ^ nat (bitlen (c - 1))"
    using bitlen_bounds [OF cpos] by simp_all
  have bl: "1 \<le> bitlen (c - 1)" using cpos by (rule bitlen_pos)
  have kneg: "k < 0"
  proof (rule ccontr)
    assume "\<not> k < 0"
    then have "0 \<le> k" by simp
    then have "(2::real) powi 0 \<le> 2 powi k" by (intro power_int_increasing) simp_all
    with assms(2) x1 show False by simp
  qed
  define n where "n = nat (- k)"
  have kn: "k = - int n" using kneg by (simp add: n_def)
  have n1: "1 \<le> n" using kneg by (simp add: n_def)
  have p1: "(2::real) powi k = 1 / 2 ^ n" by (simp add: kn power_int_minus field_simps)
  have "k + 1 = - int (n - 1)" using n1 kn by simp
  then have p2: "(2::real) powi (k + 1) = 1 / 2 ^ (n - 1)"
    by (simp add: power_int_minus field_simps)
  have u: "1 / x \<le> 2 ^ n" using assms(1,2) unfolding p1 by (simp add: field_simps)
  have l: "2 ^ (n - 1) < 1 / x" using assms(1,3) unfolding p2 by (simp add: field_simps)
  have "of_int (c - 1) < (2::real) ^ n" using cx(1) u by simp
  then have "c - 1 < 2 ^ n" by (simp only: of_int_less_numeral_power_cancel_iff)
  with b(1) have "(2::int) ^ nat (bitlen (c - 1) - 1) < 2 ^ n" by linarith
  then have "nat (bitlen (c - 1) - 1) < n" by (simp add: power_strict_increasing_iff)
  then have le1: "bitlen (c - 1) \<le> int n" using bl by linarith
  have "(2::real) ^ (n - 1) < of_int c" using l cx(2) by linarith
  then have "(2::int) ^ (n - 1) < c" by (simp only: numeral_power_less_of_int_cancel_iff)
  then have "(2::int) ^ (n - 1) \<le> c - 1" by simp
  with b(2) have "(2::int) ^ (n - 1) < 2 ^ nat (bitlen (c - 1))" by linarith
  then have "n - 1 < nat (bitlen (c - 1))" by (simp add: power_strict_increasing_iff)
  then have "int n \<le> bitlen (c - 1)" using n1 by linarith
  with le1 have "bitlen (c - 1) = int n" by simp
  with False show ?thesis by (simp add: ilog2_def c_def kn)
qed

lemma fl_eqI:
  assumes "0 < x" and "2 powi k \<le> x" and "x < 2 powi (k + 1)"
    and "round_half_even (x / 2 powi (k - 52)) = m"
    and "y = of_int m * 2 powi (k - 52)"
  shows "fl x = y"
proof -
  have "ilog2 \<bar>x\<bar> = k" using assms(1-3) by (intro ilog2_eqI) simp_all
  then show ?thesis using assms(1,4,5) by (simp add: fl_def Let_def)
qed

lemma round_half_even_of_int: "round_half_even (of_int k) = k"
  by (simp add: round_half_even_def)

lemma fl_0: "fl 0 = 0"
  by (simp add: fl_def)

lemma fl_uminus: "fl (- x) = - fl x"
  by (simp add: fl_def Let_def)

lemma fl_of_int_pos:
  assumes "0 < i" and "i < 2 ^ 53"
  shows "fl (of_int i) = of_int i"
proof -
  define k where "k = bitlen i - 1"
  have bl: "1 \<le> bitlen i" using assms(1) by (rule bitlen_pos)
  then have k0: "0 \<le> k" by (simp add: k_def)
  have b: "2 ^ nat k \<le> i" "i < 2 ^ nat (k + 1)"
    using bitlen_bounds [OF assms(1)] by (simp_all add: k_def)
  have "(2::int) ^ nat k < 2 ^ 53" using b(1) assms(2) by linarith
  then have "nat k < 53" using power_less_imp_less_exp [of "2::int" "nat k" 53] by simp
  then have k52: "k \<le> 52" by linarith
  define n where "n = nat (52 - k)"
  have e: "k - 52 = - int n" using k52 by (simp add: n_def)
  have pw: "(2::real) powi (k - 52) = 1 / 2 ^ n"
    by (simp add: e power_int_minus field_simps)
  show ?thesis
  proof (rule fl_eqI [where k = k and m = "i * 2 ^ n"])
    show "0 < real_of_int i" using assms(1) by simp
    have "(2::real) ^ nat k \<le> of_int i"
      using b(1) by (simp only: numeral_power_le_of_int_cancel_iff)
    then show "2 powi k \<le> real_of_int i" using k0 by (simp add: power_int_def)
    have "of_int i < (2::real) ^ nat (k + 1)"
      using b(2) by (simp only: of_int_less_numeral_power_cancel_iff)
    then show "real_of_int i < 2 powi (k + 1)" using k0 by (simp add: power_int_def)
    have "real_of_int i / 2 powi (k - 52) = of_int (i * 2 ^ n)" by (simp add: pw)
    then show "round_half_even (real_of_int i / 2 powi (k - 52)) = i * 2 ^ n"
      by (simp only: round_half_even_of_int)
    show "real_of_int i = real_of_int (i * 2 ^ n) * 2 powi (k - 52)" by (simp add: pw)
  qed
qed

lemma fl_of_int:
  assumes "\<bar>i\<bar> < 2 ^ 53"
  shows "fl (of_int i) = of_int i"
proof -
  consider "i = 0" | "0 < i" | "i < 0" by linarith
  then show ?thesis
  proof cases
    case 1
    then show ?thesis by (simp add: fl_0)
  next
    case 2
    with assms show ?thesis by (intro fl_of_int_pos) simp_all
  next
    case 3
    with assms have "fl (of_int (- i)) = of_int (- i)" by (intro fl_of_int_pos) simp_all
    then show ?thesis by (simp add: fl_uminus)
  qed
qed

lemma fl_numeral: "numeral n < (2::int) ^ 53 \<Longrightarrow> fl (numeral n) = numeral n"
  using fl_of_int_pos [of "numeral n"] by simp

lemma py_float_numeral: "numeral n < (2::int) ^ 53 \<Longrightarrow> py_float (numeral n) = numeral n"
  using fl_of_int_pos [of "numeral n"] by (simp add: py_float_def)

lemma py_float_0: "py_float 0 = 0"
  by (simp add: py_float_def fl_0)

lemma fmul_1920_half: "fmul 1920 (1 / 2) = 960"
  unfolding fmul_def fdiv_def int_truediv_def
  by (rule fl_eqI [where k = "9" and m = 8444249301319680]) (simp_all add: round_half_even_def)

lemma int_truediv_1000_800: "int_truediv 1000 800 = 5 / 4"
  unfolding fmul_def fdiv_def int_truediv_def
  by (rule fl_eqI [where k = "0" and m = 5629499534213120]) (simp_all add: round_half_even_def)

lemma fmul_1200_5_4: "fmul 1200 (5 / 4) = 1500"
  unfolding fmul_def fdiv_def int_truediv_def
  by (rule fl_eqI [where k = "10" and m = 6597069766656000]) (simp_all add: round_half_even_def)

lemma fmul_800_5_4: "fmul 800 (5 / 4) = 1000"
  unfolding fmul_def fdiv_def int_truediv_def
  by (rule fl_eqI [where k = "9" and m = 8796093022208000]) (simp_all add: round_half_even_def)

lemma int_truediv_864_1500: "int_truediv 864 1500 = 5188146770730811 / 9007199254740992"
  unfolding fmul_def fdiv_def int_truediv_def
  by (rule fl_eqI [where k = "- 1" and m = 5188146770730811]) (simp_all add: round_half_even_def)

lemma int_truediv_864_1000: "int_truediv 864 1000 = 7782220156096217 / 9007199254740992"
  unfolding fmul_def fdiv_def int_truediv_def
  by (rule fl_eqI [where k = "- 1" and m = 7782220156096217]) (simp_all add: round_half_even_def)

lemma fmul_1500_F: "fmul 1500 (5188146770730811 / 9007199254740992) = 7599824371187711 / 8796093022208"
  unfolding fmul_def fdiv_def int_truediv_def
  by (rule fl_eqI [where k = "9" and m = 7599824371187711]) (simp_all add: round_half_even_def)

lemma fmul_1000_F: "fmul 1000 (5188146770730811 / 9007199254740992) = 576"
  unfolding fmul_def fdiv_def int_truediv_def
  by (rule fl_eqI [where k = "9" and m = 5066549580791808]) (simp_all add: round_half_even_def)

lemma fmul_1000_G: "fmul 1000 (7782220156096217 / 9007199254740992) = 864"
  unfolding fmul_def fdiv_def int_truediv_def
  by (rule fl_eqI [where k = "9" and m = 7599824371187712]) (simp_all add: round_half_even_def)

lemma fl_18_100: "fl (9 / 50) = 3242591731706757 / 18014398509481984"
  unfolding fmul_def fdiv_def int_truediv_def
  by (rule fl_eqI [where k = "- 3" and m = 6485183463413514]) (simp_all add: round_half_even_def)

lemma fmul_1920_K: "fmul 1920 (3242591731706757 / 18014398509481984) = 6079859496950169 / 17592186044416"
  unfolding fmul_def fdiv_def int_truediv_def
  by (rule fl_eqI [where k = "8" and m = 6079859496950169]) (simp_all add: round_half_even_def)

lemma fdiv_L_1000: "fdiv (6079859496950169 / 17592186044416) 1000 = 6225776124876973 / 18014398509481984"
  unfolding fmul_def fdiv_def int_truediv_def
  by (rule fl_eqI [where k = "- 2" and m = 6225776124876973]) (simp_all add: round_half_even_def)

lemma fmul_1000_S: "fmul 1000 (6225776124876973 / 18014398509481984) = 6079859496950169 / 17592186044416"
  unfolding fmul_def fdiv_def int_truediv_def
  by (rule fl_eqI [where k = "8" and m = 6079859496950169]) (simp_all add: round_half_even_def)

lemma fmul_400_S: "fmul 400 (6225776124876973 / 18014398509481984) = 4863887597560135 / 35184372088832"
  unfolding fmul_def fdiv_def int_truediv_def
  by (rule fl_eqI [where k = "7" and m = 4863887597560135]) (simp_all add: round_half_even_def)

lemma fl_7_10: "fl (7 / 10) = 3152519739159347 / 4503599627370496"
  unfolding fmul_def fdiv_def int_truediv_def
  by (rule fl_eqI [where k = "- 1" and m = 6305039478318694]) (simp_all add: round_half_even_def)

lemma fmul_720_A: "fmul 720 (3152519739159347 / 4503599627370496) = 8866461766385663 / 17592186044416"
  unfolding fmul_def fdiv_def int_truediv_def
  by (rule fl_eqI [where k = "8" and m = 8866461766385663]) (simp_all add: round_half_even_def)

lemma fdiv_25_10: "fdiv 25 10 = 5 / 2"
  unfolding fmul_def fdiv_def int_truediv_def
  by (rule fl_eqI [where k = "1" and m = 5629499534213120]) (simp_all add: round_half_even_def)

lemma fmul_5_2: "fmul 5 2 = 10"
  unfolding fmul_def fdiv_def int_truediv_def
  by (rule fl_eqI [where k = "3" and m = 5629499534213120]) (simp_all add: round_half_even_def)
text \<open>The floats that the runs below meet.\<close>

lemmas float_values =
  py_float_numeral py_float_0 fl_numeral fl_0
  fmul_1920_half int_truediv_1000_800 fmul_1200_5_4 fmul_800_5_4
  int_truediv_864_1500 int_truediv_864_1000 fmul_1500_F fmul_1000_F fmul_1000_G
  fl_18_100 fmul_1920_K fdiv_L_1000 fmul_1000_S fmul_400_S fl_7_10 fmul_720_A
  fdiv_25_10 fmul_5_2

lemma round_half_even_nonneg: "0 \<le> y \<Longrightarrow> 0 \<le> round_half_even y"
  by (auto simp: round_half_even_def Let_def)

lemma fl_nonneg: "0 \<le> x \<Longrightarrow> 0 \<le> fl x"
proof -
  assume x: "0 \<le> x"
  have "0 \<le> \<bar>x\<bar> / 2 powi e" for e by simp
  then have "0 \<le> round_half_even (\<bar>x\<bar> / 2 powi e)" for e by (rule round_half_even_nonneg)
  then show ?thesis using x by (simp add: fl_def Let_def sgn_if)
qed

section \<open>The inputs\<close>

lemma app_cfg_simps:
  "frame_width app_cfg = 1920" "frame_height app_cfg = 960" "left_panel_ratio app_cfg = 1 / 2"
  "edge_padding_px app_cfg = 48" "bullet_color_hex app_cfg = ''#78185A''"
  "background_color app_cfg = ''#FFFFFF''" "logo_path app_cfg = Some []"
  "logo_position app_cfg = ''top_right''" "logo_margin_px app_cfg = 28"
  "safe_area_inset_px app_cfg = 48" "duration_per_slide app_cfg = 5" "max_slides app_cfg = 5"
  "remove_bg app_cfg = Some True" "upscale_to_min_side_px app_cfg = Some 1000"
  "images_folder app_cfg = ''images''" "music_path app_cfg = Some []"
  by (simp_all add: app_cfg_def)

lemma test_env_simps:
  "title_font test_env = Some (mono 20)" "body_font test_env = Some (mono 20)"
  "rembg_remove test_env = None"
  "image_open test_env ''images/a.png'' = Some (Image 1200 800 (Decoded ''images/a.png''))"
  "image_open test_env ''images/gone.png'' = None"
  "audio_file test_env ''music.mp3'' = Some 10"
  "path_exists test_env ''music.mp3''"
  by (simp_all add: test_env_def)

lemma hex_white: "hex_to_rgb ''#FFFFFF'' = Inr (255, 255, 255)"
  by code_simp

lemma hex_bullet: "hex_to_rgb ''#78185A'' = Inr (120, 24, 90)"
  by code_simp

section \<open>Slides and the timeline\<close>

lemma draw_title_lines_size:
  "im_w (fst (draw_title_lines ts pad gap ls canvas y)) = im_w canvas
   \<and> im_h (fst (draw_title_lines ts pad gap ls canvas y)) = im_h canvas"
  by (induction ls arbitrary: canvas y) (simp_all add: draw_text_def)

lemma draw_bullets_size:
  "im_w (fst (draw_bullets ts c col bs canvas y)) = im_w canvas
   \<and> im_h (fst (draw_bullets ts c col bs canvas y)) = im_h canvas"
  by (induction bs arbitrary: canvas y) (simp_all add: draw_text_def Let_def)

lemma render_text_panel_size:
  assumes "hex_to_rgb (bullet_color_hex c) = Inr col" "title_font e = Some tf" "body_font e = Some bf"
    "0 \<le> py_int (fmul (py_float (frame_width c)) (left_panel_ratio c))" "0 \<le> frame_height c"
  shows "\<exists>im. render_text_panel e t bs c = Inr im
          \<and> im_w im = py_int (fmul (py_float (frame_width c)) (left_panel_ratio c))
          \<and> im_h im = frame_height c"
  using assms
  by (simp add: render_text_panel_def image_new_def Let_def draw_bullets_size draw_title_lines_size)

lemma render_text_panel_app:
  "\<exists>im. render_text_panel test_env t bs (app_cfg\<lparr>logo_position := pos\<rparr>) = Inr im"
proof -
  have "\<exists>im. render_text_panel test_env t bs (app_cfg\<lparr>logo_position := pos\<rparr>) = Inr im
          \<and> im_w im = py_int (fmul (py_float (frame_width (app_cfg\<lparr>logo_position := pos\<rparr>)))
                 (left_panel_ratio (app_cfg\<lparr>logo_position := pos\<rparr>)))
          \<and> im_h im = frame_height (app_cfg\<lparr>logo_position := pos\<rparr>)"
    by (rule render_text_panel_size [where col = "(120, 24, 90)" and tf = "mono 20" and bf = "mono 20"])
       (simp_all add: app_cfg_simps test_env_simps hex_bullet float_values py_int_def)
  then show ?thesis by blast
qed

text \<open>The layers of three slides: the image \<^verbatim>\<open>a.png\<close> of 1200 by 800 pixels with and
  without a logo, and an image that cannot be opened. The right pane is 864 pixels wide
  and high. The image \<^verbatim>\<open>a.png\<close>, enlarged to 1500 by 1000, is fitted to 863 by 576: the
  float \<^verbatim>\<open>1500 * (864 / 1500)\<close> is just below 864.\<close>

lemma slide_layers_a:
  "\<exists>panel. slide_layers test_env ''images/a.png'' t bs (app_cfg\<lparr>logo_position := pos\<rparr>) (Some test_logo)
     = Inr [Some (image_clip (Image 1920 960 (Solid (RGBA 255 255 255 255))) 5),
            Some (set_position (image_clip panel 5) (panel_pos 960)),
            Some (set_position (image_clip (Image 863 576 (Resampled (Image 1500 1000 (Resampled
               (Image 1200 800 (Decoded ''images/a.png'')))))) 5) (prod_pos 1920 1008 192)),
            Some (set_position (image_clip test_logo 5)
               (logo_pos 1920 test_logo (app_cfg\<lparr>logo_position := pos\<rparr>)))]"
proof -
  obtain panel where p: "render_text_panel test_env t bs (app_cfg\<lparr>logo_position := pos\<rparr>) = Inr panel"
    using render_text_panel_app by blast
  have "slide_layers test_env ''images/a.png'' t bs (app_cfg\<lparr>logo_position := pos\<rparr>) (Some test_logo)
     = Inr [Some (image_clip (Image 1920 960 (Solid (RGBA 255 255 255 255))) 5),
            Some (set_position (image_clip panel 5) (panel_pos 960)),
            Some (set_position (image_clip (Image 863 576 (Resampled (Image 1500 1000 (Resampled
               (Image 1200 800 (Decoded ''images/a.png'')))))) 5) (prod_pos 1920 1008 192)),
            Some (set_position (image_clip test_logo 5)
               (logo_pos 1920 test_logo (app_cfg\<lparr>logo_position := pos\<rparr>)))]"
    by (simp add: slide_layers_def p app_cfg_simps test_env_simps hex_white float_values
          py_int_def image_new_def open_product_image_def remove_bg_if_possible_def get_or_def
          upscale_min_side_def resize_def right_pane_def paste_logo_def test_logo_def
          alpha_composite_def Let_def)
  then show ?thesis by blast
qed

lemma slide_layers_nologo:
  "\<exists>panel. slide_layers test_env ''images/a.png'' t bs app_cfg None
     = Inr [Some (image_clip (Image 1920 960 (Solid (RGBA 255 255 255 255))) 5),
            Some (set_position (image_clip panel 5) (panel_pos 960)),
            Some (set_position (image_clip (Image 863 576 (Resampled (Image 1500 1000 (Resampled
               (Image 1200 800 (Decoded ''images/a.png'')))))) 5) (prod_pos 1920 1008 192)),
            None]"
proof -
  have "app_cfg\<lparr>logo_position := ''top_right''\<rparr> = app_cfg" by (simp add: app_cfg_def)
  then obtain panel where p: "render_text_panel test_env t bs app_cfg = Inr panel"
    using render_text_panel_app [of t bs "''top_right''"] by auto
  have "slide_layers test_env ''images/a.png'' t bs app_cfg None
     = Inr [Some (image_clip (Image 1920 960 (Solid (RGBA 255 255 255 255))) 5),
            Some (set_position (image_clip panel 5) (panel_pos 960)),
            Some (set_position (image_clip (Image 863 576 (Resampled (Image 1500 1000 (Resampled
               (Image 1200 800 (Decoded ''images/a.png'')))))) 5) (prod_pos 1920 1008 192)),
            None]"
    by (simp add: slide_layers_def p app_cfg_simps test_env_simps hex_white float_values
          py_int_def image_new_def open_product_image_def remove_bg_if_possible_def get_or_def
          upscale_min_side_def resize_def right_pane_def alpha_composite_def Let_def)
  then show ?thesis by blast
qed

lemma slide_layers_missing:
  "\<exists>panel. slide_layers test_env ''images/gone.png'' t bs app_cfg None
     = Inr [Some (image_clip (Image 1920 960 (Solid (RGBA 255 255 255 255))) 5),
            Some (set_position (image_clip panel 5) (panel_pos 960)),
            Some (set_position (image_clip (Image 864 864 (Resampled (Image 1000 1000 (Resampled
               (missing_image ''images/gone.png''))))) 5) (prod_pos 1920 1008 48)),
            None]"
proof -
  have "app_cfg\<lparr>logo_position := ''top_right''\<rparr> = app_cfg" by (simp add: app_cfg_def)
  then obtain panel where p: "render_text_panel test_env t bs app_cfg = Inr panel"
    using render_text_panel_app [of t bs "''top_right''"] by auto
  have m: "im_w (missing_image ''images/gone.png'') = 800" "im_h (missing_image ''images/gone.png'') = 800"
    by (simp_all add: missing_image_def draw_text_def)
  have "slide_layers test_env ''images/gone.png'' t bs app_cfg None
     = Inr [Some (image_clip (Image 1920 960 (Solid (RGBA 255 255 255 255))) 5),
            Some (set_position (image_clip panel 5) (panel_pos 960)),
            Some (set_position (image_clip (Image 864 864 (Resampled (Image 1000 1000 (Resampled
               (missing_image ''images/gone.png''))))) 5) (prod_pos 1920 1008 48)),
            None]"
    by (simp add: slide_layers_def p m app_cfg_simps test_env_simps hex_white float_values
          py_int_def image_new_def open_product_image_def remove_bg_if_possible_def get_or_def
          upscale_min_side_def resize_def right_pane_def alpha_composite_def Let_def)
  then show ?thesis by blast
qed

text \<open>\<^verbatim>\<open>build_slide_clip\<close> never returns a clip: where the layers are built, the iterator
  makes \<^verbatim>\<open>CompositeVideoClip\<close> raise \<^verbatim>\<open>TypeError\<close>. So the loop adds no slide, and no run
  writes a video.\<close>

lemma build_slide_clip_TypeError:
  "slide_layers e p t bs c logo = Inr layers \<Longrightarrow> build_slide_clip e p t bs c logo = Inl TypeError"
  by (simp add: build_slide_clip_def composite_video_clip_def)

lemma build_slide_clip_raises: "\<exists>err. build_slide_clip e p t bs c logo = Inl err"
  by (cases "slide_layers e p t bs c logo")
     (simp_all add: build_slide_clip_def composite_video_clip_def)

lemma slide_of_row_raises: "\<exists>err. slide_of_row e c logo r f = Inl err"
proof -
  obtain err where "build_slide_clip e (path_join (images_folder c) f)
      (py_strip (row_str r (title_col c)))
      (filter (\<lambda>v. v \<noteq> []) (map (\<lambda>col. py_strip (row_str r col)) (bullets_cols c))) c logo = Inl err"
    using build_slide_clip_raises by blast
  then show ?thesis by (simp add: slide_of_row_def)
qed

lemma slides_loop_stop:
  "max_slides c \<le> int (length slides) \<Longrightarrow> slides_loop e c logo (r # rows) slides = Inr slides"
  by simp

lemma slides_loop_skip:
  "int (length slides) < max_slides c \<Longrightarrow> row_excluded c r
   \<Longrightarrow> slides_loop e c logo (r # rows) slides = slides_loop e c logo rows slides"
  by (auto simp: row_excluded_def)

lemma slides_loop_build:
  "int (length slides) < max_slides c \<Longrightarrow> \<not> row_excluded c r
   \<Longrightarrow> slides_loop e c logo (r # rows) slides =
       (case slide_of_row e c logo r (row_image_file c r) of
          Inl err \<Rightarrow> Inl err
        | Inr cl \<Rightarrow> slides_loop e c logo rows (slides @ [cl]))"
  by (simp add: row_excluded_def)

lemma slides_loop_unchanged:
  assumes "slides_loop e c logo rows slides = Inr out"
  shows "out = slides"
  using assms
proof (induction rows)
  case Nil
  then show ?case by simp
next
  case (Cons r rows)
  consider (stop) "max_slides c \<le> int (length slides)"
    | (skip) "int (length slides) < max_slides c" "row_excluded c r"
    | (build) "int (length slides) < max_slides c" "\<not> row_excluded c r"
    by linarith
  then show ?case
  proof cases
    case stop
    from Cons.prems show ?thesis by (simp only: slides_loop_stop [OF stop] sum.inject)
  next
    case skip
    from Cons.prems have "slides_loop e c logo rows slides = Inr out"
      by (simp only: slides_loop_skip [OF skip])
    then show ?thesis by (rule Cons.IH)
  next
    case build
    obtain err where "slide_of_row e c logo r (row_image_file c r) = Inl err"
      using slide_of_row_raises by blast
    then have "slides_loop e c logo (r # rows) slides = Inl err"
      by (simp only: slides_loop_build [OF build] sum.case)
    with Cons.prems show ?thesis by simp
  qed
qed

lemma main_never_writes: "main e c rows \<noteq> Written p v"
proof
  assume w: "main e c rows = Written p v"
  then obtain logo slides where "slides_loop e c logo rows [] = Inr slides" "slides \<noteq> []"
    by (auto simp: main_def split: sum.splits if_splits)
  with slides_loop_unchanged show False by blast
qed

lemma main_first_row_raises:
  assumes "load_logo e c = Inr logo" and "0 < max_slides c" and "\<not> row_excluded c r"
    and "slide_layers e (path_join (images_folder c) (row_image_file c r))
           (py_strip (row_str r (title_col c)))
           (filter (\<lambda>v. v \<noteq> []) (map (\<lambda>col. py_strip (row_str r col)) (bullets_cols c)))
           c logo = Inr layers"
  shows "main e c (r # rows) = Raised TypeError"
proof -
  have "slide_of_row e c logo r (row_image_file c r) = Inl TypeError"
    using build_slide_clip_TypeError [OF assms(4)] by (simp add: slide_of_row_def)
  moreover have "int (length ([] :: clip list)) < max_slides c" using assms(2) by simp
  ultimately have "slides_loop e c logo (r # rows) [] = Inl TypeError"
    using slides_loop_build [OF _ assms(3), of "[]" e logo rows] by simp
  then show ?thesis using assms(1) by (simp add: main_def)
qed

lemma slides_loop_excluded:
  assumes "max_slides c \<le> int (length slides) \<or> (\<forall>r \<in> set rows. row_excluded c r)"
  shows "slides_loop e c logo rows slides = Inr slides"
  using assms
proof (induction rows)
  case Nil
  then show ?case by simp
next
  case (Cons r rows)
  show ?case
  proof (cases "max_slides c \<le> int (length slides)")
    case True
    then show ?thesis by (rule slides_loop_stop)
  next
    case False
    with Cons.prems have ex: "row_excluded c r" "\<forall>r \<in> set rows. row_excluded c r" by simp_all
    from False have lt: "int (length slides) < max_slides c" by simp
    have "slides_loop e c logo rows slides = Inr slides" using Cons.IH ex(2) by blast
    then show ?thesis by (simp only: slides_loop_skip [OF lt ex(1)])
  qed
qed

lemma slides_loop_order:
  assumes "slides_loop e c logo rows slides = Inr out"
  shows "map Inr out = map Inr slides @
           map (\<lambda>r. slide_of_row e c logo r (row_image_file c r))
             (take (nat (max_slides c - int (length slides)))
                (filter (\<lambda>r. \<not> row_excluded c r) rows))"
  using assms
proof (induction rows arbitrary: slides)
  case Nil
  then show ?case by simp
next
  case (Cons r rows)
  consider (stop) "max_slides c \<le> int (length slides)"
    | (skip) "int (length slides) < max_slides c" "row_excluded c r"
    | (build) "int (length slides) < max_slides c" "\<not> row_excluded c r"
    by linarith
  then show ?case
  proof cases
    case stop
    from Cons.prems have "out = slides"
      by (simp only: slides_loop_stop [OF stop] sum.inject)
    then show ?thesis using stop by simp
  next
    case skip
    from Cons.prems have "slides_loop e c logo rows slides = Inr out"
      by (simp only: slides_loop_skip [OF skip])
    from Cons.IH [OF this] show ?thesis using skip(2) by simp
  next
    case build
    from Cons.prems have
      "(case slide_of_row e c logo r (row_image_file c r) of
          Inl err \<Rightarrow> Inl err
        | Inr cl \<Rightarrow> slides_loop e c logo rows (slides @ [cl])) = Inr out"
      by (simp only: slides_loop_build [OF build])
    then obtain cl where s: "slide_of_row e c logo r (row_image_file c r) = Inr cl"
      and l: "slides_loop e c logo rows (slides @ [cl]) = Inr out"
      by (cases "slide_of_row e c logo r (row_image_file c r)") simp_all
    have n: "nat (max_slides c - int (length slides))
           = Suc (nat (max_slides c - int (length (slides @ [cl]))))"
      using build(1) by simp
    from Cons.IH [OF l] show ?thesis
      using build(2) s by (simp only: n) simp
  qed
qed

lemma slides_loop_empty_iff:
  "slides_loop e c logo rows [] = Inr [] \<longleftrightarrow>
     max_slides c \<le> 0 \<or> (\<forall>r \<in> set rows. row_excluded c r)"
proof
  assume "slides_loop e c logo rows [] = Inr []"
  from slides_loop_order [OF this]
  have "take (nat (max_slides c)) (filter (\<lambda>r. \<not> row_excluded c r) rows) = []"
    by simp
  then have "nat (max_slides c) = 0 \<or> filter (\<lambda>r. \<not> row_excluded c r) rows = []"
    by (simp add: take_eq_Nil)
  then show "max_slides c \<le> 0 \<or> (\<forall>r \<in> set rows. row_excluded c r)"
    by (auto simp: filter_empty_conv)
next
  assume "max_slides c \<le> 0 \<or> (\<forall>r \<in> set rows. row_excluded c r)"
  then show "slides_loop e c logo rows [] = Inr []"
    by (intro slides_loop_excluded) simp
qed



lemma test_rows:
  "load_logo test_env app_cfg = Inr None" "0 < max_slides app_cfg"
  "\<not> row_excluded app_cfg row_a" "\<not> row_excluded app_cfg row_missing"
  "path_join (images_folder app_cfg) (row_image_file app_cfg row_a) = ''images/a.png''"
  "path_join (images_folder app_cfg) (row_image_file app_cfg row_missing) = ''images/gone.png''"
  by code_simp+

text \<open>
  C1 (the code departs from it): the claim places slide \<open>i\<close> at
  \<open>[i * duration_per_slide, (i + 1) * duration_per_slide)\<close> of a video that lasts
  \<open>duration_per_slide * n\<close>. No run comes to a timeline. \<^verbatim>\<open>build_slide_clip\<close> hands
  \<^verbatim>\<open>CompositeVideoClip\<close> the iterator \<^verbatim>\<open>[...].__iter__()\<close>, and the constructor raises
  \<^verbatim>\<open>TypeError\<close>: the first row that passes the filters ends the run
  (\<open>main_first_row_raises\<close>), and no run writes a video (\<open>main_never_writes\<close>). So the
  run on two rows that pass the filters, five seconds a slide, raises \<^verbatim>\<open>TypeError\<close>. The
  statement that assembles the timeline,
  \<^verbatim>\<open>CompositeVideoClip(slides).set_duration(per*len(slides))\<close>, is a second departure:
  taken alone on two slides of five seconds it gives no slide a start time, so that both
  occupy \<open>[0, 5)\<close>, one above the other, in a video of 10 seconds.
\<close>

theorem timeline_run_raises:
  "main test_env app_cfg [row_a, row_b] = Raised TypeError
   \<and> map_sum id (\<lambda>v. (map clip_interval (clip_layers v), clip_duration v))
       (assemble_video app_cfg
          [CompositeVideoClip [image_clip (Image 1920 960 (Solid (RGBA 255 255 255 255))) 5] 0 5 None,
           CompositeVideoClip [image_clip (Image 1920 960 (Solid (RGBA 0 0 0 255))) 5] 0 5 None])
     = Inr ([(0, 5), (0, 5)], 10)"
proof -
  obtain layers where "slide_layers test_env ''images/a.png'' (py_strip (row_str row_a (title_col app_cfg)))
      (filter (\<lambda>v. v \<noteq> []) (map (\<lambda>col. py_strip (row_str row_a col)) (bullets_cols app_cfg)))
      app_cfg None = Inr layers"
    using slide_layers_nologo by blast
  then have a: "main test_env app_cfg [row_a, row_b] = Raised TypeError"
    by (intro main_first_row_raises [where logo = None and layers = layers])
       (simp_all add: test_rows)
  have b: "map_sum id (\<lambda>v. (map clip_interval (clip_layers v), clip_duration v))
       (assemble_video app_cfg
          [CompositeVideoClip [image_clip (Image 1920 960 (Solid (RGBA 255 255 255 255))) 5] 0 5 None,
           CompositeVideoClip [image_clip (Image 1920 960 (Solid (RGBA 0 0 0 255))) 5] 0 5 None])
     = Inr ([(0, 5), (0, 5)], 10)"
    by (simp add: assemble_video_def composite_video_clip_def clip_interval_def clip_end_def
          fadd_def float_values app_cfg_simps)
  from a b show ?thesis by simp
qed

section \<open>Panel width\<close>

text \<open>
  With a frame 1921 pixels wide and a ratio of 0.75 the product is 1440.75:
  \<^verbatim>\<open>int\<close> cuts it to 1440, rounding gives 1441.
\<close>

theorem panel_width_round_counterexample:
  "map_sum id im_w (render_text_panel test_env [] []
        (app_cfg\<lparr>frame_width := 1921, left_panel_ratio := 3 / 4\<rparr>)) = Inr 1440
   \<and> map_sum id im_w (render_text_panel test_env [] []
        (app_cfg\<lparr>frame_width := 1921, left_panel_ratio := 3 / 4\<rparr>))
      \<noteq> Inr (round (real_of_int 1921 * (3 / 4)))"
  by code_simp

text \<open>
  C2 (as amended): when the frame width \<open>W\<close>, the frame height and the ratio \<open>r\<close> are not
  negative, the bullet colour is a hex colour and the two fonts load, the text panel is
  \<^verbatim>\<open>int(W * r)\<close> pixels wide, which is the product of the floats \<open>W\<close> and \<open>r\<close>, itself
  rounded to a float, cut down to an integer and not rounded; it is as high as the frame,
  and the width left for the product image is
  \<open>W - panel_width - 2 * safe_area_inset\<close>. The width is that of the float product:
  with a frame of 720 pixels and the ratio \<^verbatim>\<open>0.7\<close> it is 503, the float \<^verbatim>\<open>720 * 0.7\<close> being
  just below 504.
\<close>

theorem panel_width_truncated:
  assumes "0 \<le> frame_width c" "0 \<le> frame_height c" "0 \<le> left_panel_ratio c"
    "hex_to_rgb (bullet_color_hex c) = Inr col" "title_font e = Some tf" "body_font e = Some bf"
  shows "\<exists>im. render_text_panel e t bs c = Inr im
      \<and> im_w im = \<lfloor>fmul (py_float (frame_width c)) (left_panel_ratio c)\<rfloor>
      \<and> im_h im = frame_height c
      \<and> fst (right_pane c) = frame_width c - im_w im - 2 * safe_area_inset_px c"
proof -
  have "0 \<le> py_float (frame_width c)" using assms(1) unfolding py_float_def by (intro fl_nonneg) simp
  then have "0 \<le> py_float (frame_width c) * left_panel_ratio c" using assms(3) by simp
  then have nn: "0 \<le> fmul (py_float (frame_width c)) (left_panel_ratio c)"
    unfolding fmul_def by (rule fl_nonneg)
  then have pi: "py_int (fmul (py_float (frame_width c)) (left_panel_ratio c))
       = \<lfloor>fmul (py_float (frame_width c)) (left_panel_ratio c)\<rfloor>"
    by (simp add: py_int_def)
  have "0 \<le> py_int (fmul (py_float (frame_width c)) (left_panel_ratio c))"
    using nn by (simp add: pi)
  from render_text_panel_size [OF assms(4,5,6) this assms(2), of t bs] show ?thesis
    by (auto simp: pi right_pane_def Let_def)
qed

theorem panel_width_truncated_witness:
  "hex_to_rgb (bullet_color_hex app_cfg) = Inr (120, 24, 90)
   \<and> title_font test_env = Some (mono 20) \<and> body_font test_env = Some (mono 20)
   \<and> map_sum id im_w (render_text_panel test_env ''Widget'' [''Fast and light''] app_cfg) = Inr 960
   \<and> map_sum id im_h (render_text_panel test_env ''Widget'' [''Fast and light''] app_cfg) = Inr 960
   \<and> fst (right_pane app_cfg) = 1920 - 960 - 2 * 48
   \<and> map_sum id im_w (render_text_panel test_env ''Widget'' [''Fast and light'']
        (app_cfg\<lparr>frame_width := 720, left_panel_ratio := fl (7 / 10)\<rparr>)) = Inr 503"
proof -
  have h: "0 \<le> frame_width app_cfg" "0 \<le> frame_height app_cfg" "0 \<le> left_panel_ratio app_cfg"
    "hex_to_rgb (bullet_color_hex app_cfg) = Inr (120, 24, 90)"
    "title_font test_env = Some (mono 20)" "body_font test_env = Some (mono 20)"
    by (simp_all add: app_cfg_simps test_env_simps hex_bullet)
  have v: "\<lfloor>fmul (py_float (frame_width app_cfg)) (left_panel_ratio app_cfg)\<rfloor> = 960"
    by (simp add: app_cfg_simps float_values)
  from panel_width_truncated [OF h, of "''Widget''" "[''Fast and light'']"]
  obtain im where im: "render_text_panel test_env ''Widget'' [''Fast and light''] app_cfg = Inr im"
    "im_w im = \<lfloor>fmul (py_float (frame_width app_cfg)) (left_panel_ratio app_cfg)\<rfloor>"
    "im_h im = frame_height app_cfg"
    "fst (right_pane app_cfg) = frame_width app_cfg - im_w im - 2 * safe_area_inset_px app_cfg"
    by blast
  define c7 where "c7 = app_cfg\<lparr>frame_width := 720, left_panel_ratio := fl (7 / 10)\<rparr>"
  have h7: "0 \<le> frame_width c7" "0 \<le> frame_height c7" "0 \<le> left_panel_ratio c7"
    "hex_to_rgb (bullet_color_hex c7) = Inr (120, 24, 90)"
    by (simp_all add: c7_def app_cfg_simps hex_bullet float_values)
  have v7: "\<lfloor>fmul (py_float (frame_width c7)) (left_panel_ratio c7)\<rfloor> = 503"
    by (simp add: c7_def float_values)
  from panel_width_truncated [OF h7 h(5,6), of "''Widget''" "[''Fast and light'']"]
  obtain im7 where im7: "render_text_panel test_env ''Widget'' [''Fast and light''] c7 = Inr im7"
    "im_w im7 = \<lfloor>fmul (py_float (frame_width c7)) (left_panel_ratio c7)\<rfloor>"
    by blast
  from im im7 show ?thesis using h v v7 by (simp add: app_cfg_simps c7_def)
qed

section \<open>Logo\<close>

text \<open>
  C3 (the code departs from it). On a frame of 1920 by 960 pixels with a margin of 28 and
  a logo of 1000 by 400 pixels, the logo layer that \<^verbatim>\<open>build_slide_clip\<close> writes down for
  the composition is the logo at its original size, 1000 pixels wide, which is 52% of the
  frame, at \<open>(1920 - 1000 - 28, 28)\<close> throughout the five seconds. \<^verbatim>\<open>paste_logo\<close> does
  what the claim says, 345 by 138 pixels at \<open>(1547, 28)\<close>, but on a bitmap that is not
  among the layers. With \<^verbatim>\<open>logo_position\<close> set to \<^verbatim>\<open>top_left\<close> the layer stays at the top
  right, where \<^verbatim>\<open>paste_logo\<close> goes to \<open>(28, 28)\<close>. And no slide is composed of these
  layers: the call of \<^verbatim>\<open>CompositeVideoClip\<close> on their iterator raises \<^verbatim>\<open>TypeError\<close>.
\<close>

theorem logo_layer_unscaled:
  "map_option (\<lambda>l. (im_w (clip_image l), im_h (clip_image l), clip_pos l 0, clip_pos l 5, clip_duration l))
     (slide_layer 3 (slide_layers test_env ''images/a.png'' ''Widget'' [] app_cfg (Some test_logo)))
   = Some (1000, 400, (892, 28), (892, 28), 5)
  \<and> map_sum id snd (paste_logo (Image 1920 960 (Solid (RGBA 0 0 0 0))) test_logo app_cfg)
   = Inr (Image 345 138 (Resampled test_logo), 1547, 28)
  \<and> map_option (\<lambda>l. clip_pos l 0)
     (slide_layer 3 (slide_layers test_env ''images/a.png'' ''Widget'' []
        (app_cfg\<lparr>logo_position := ''top_left''\<rparr>) (Some test_logo)))
   = Some (892, 28)
  \<and> map_sum id snd (paste_logo (Image 1920 960 (Solid (RGBA 0 0 0 0))) test_logo
        (app_cfg\<lparr>logo_position := ''top_left''\<rparr>))
   = Inr (Image 345 138 (Resampled test_logo), 28, 28)
  \<and> build_slide_clip test_env ''images/a.png'' ''Widget'' [] app_cfg (Some test_logo) = Inl TypeError"
proof -
  have eq: "app_cfg\<lparr>logo_position := ''top_right''\<rparr> = app_cfg" by (simp add: app_cfg_def)
  from slide_layers_a [of "''Widget''" "[]" "''top_right''"]
  obtain layers where l: "slide_layers test_env ''images/a.png'' ''Widget'' [] app_cfg (Some test_logo) = Inr layers"
    and l3: "slide_layer 3 (Inr layers) = Some (set_position (image_clip test_logo 5) (logo_pos 1920 test_logo app_cfg))"
    unfolding eq by (auto simp: slide_layer_def)
  have a: "map_option (\<lambda>l. (im_w (clip_image l), im_h (clip_image l), clip_pos l 0, clip_pos l 5, clip_duration l))
     (slide_layer 3 (slide_layers test_env ''images/a.png'' ''Widget'' [] app_cfg (Some test_logo)))
   = Some (1000, 400, (892, 28), (892, 28), 5)"
    unfolding l l3 by (simp add: image_clip_def logo_pos_def test_logo_def app_cfg_simps)
  have b: "map_sum id snd (paste_logo (Image 1920 960 (Solid (RGBA 0 0 0 0))) test_logo app_cfg)
   = Inr (Image 345 138 (Resampled test_logo), 1547, 28)"
    by (simp add: paste_logo_def test_logo_def float_values py_int_def resize_def
          alpha_composite_def app_cfg_simps Let_def)
  from slide_layers_a [of "''Widget''" "[]" "''top_left''"]
  have d: "map_option (\<lambda>l. clip_pos l 0)
     (slide_layer 3 (slide_layers test_env ''images/a.png'' ''Widget'' []
        (app_cfg\<lparr>logo_position := ''top_left''\<rparr>) (Some test_logo)))
   = Some (892, 28)"
    by (auto simp: slide_layer_def image_clip_def logo_pos_def test_logo_def app_cfg_simps)
  have f: "map_sum id snd (paste_logo (Image 1920 960 (Solid (RGBA 0 0 0 0))) test_logo
        (app_cfg\<lparr>logo_position := ''top_left''\<rparr>))
   = Inr (Image 345 138 (Resampled test_logo), 28, 28)"
    by (simp add: paste_logo_def test_logo_def float_values py_int_def resize_def
          alpha_composite_def app_cfg_simps Let_def)
  have g: "build_slide_clip test_env ''images/a.png'' ''Widget'' [] app_cfg (Some test_logo)
        = Inl TypeError"
    using l by (rule build_slide_clip_TypeError)
  from a b d f g show ?thesis by blast
qed

section \<open>Word wrapping\<close>

lemma dropWhile_word: "word_ok w \<Longrightarrow> dropWhile is_space w = w"
  by (cases w) (simp_all add: word_ok_def)

lemma strip_word: "word_ok w \<Longrightarrow> py_strip w = w"
proof -
  assume w: "word_ok w"
  then have "word_ok (rev w)" by (simp add: word_ok_def)
  then show ?thesis using w by (simp add: py_strip_def dropWhile_word)
qed

lemma strip_blank_word: "word_ok w \<Longrightarrow> py_strip ('' '' @ w) = w"
proof -
  assume w: "word_ok w"
  have "py_strip ('' '' @ w) = py_strip w"
    by (simp add: py_strip_def is_space_blank)
  then show ?thesis using w by (simp add: strip_word)
qed

lemma split_word: "word_ok w \<Longrightarrow> py_split w = [w]"
  using py_split_join [of "[w]"] by simp

lemma wrap_text_single_word:
  assumes "word_ok w"
  shows "wrap_text ts pad w max_w = [w]"
proof -
  have s: "py_strip (CHR '' '' # w) = w" using strip_blank_word [OF assms] by simp
  have ne: "w \<noteq> []" using assms by (simp add: word_ok_def)
  show ?thesis by (simp add: wrap_text_def split_word [OF assms] Let_def s ne)
qed

lemma join_snoc:
  "ws \<noteq> [] \<Longrightarrow> py_join '' '' ws @ '' '' @ w = py_join '' '' (ws @ [w])"
  by (induction ws rule: induct_list012) simp_all

lemma join_ends:
  assumes "\<forall>w \<in> set ws. word_ok w" "ws \<noteq> []"
  shows "py_join '' '' ws \<noteq> [] \<and> \<not> is_space (hd (py_join '' '' ws))
       \<and> \<not> is_space (last (py_join '' '' ws))"
  using assms
proof (induction ws rule: induct_list012)
  case 1
  then show ?case by simp
next
  case (2 x)
  then show ?case by (cases x) (auto simp: word_ok_def)
next
  case (3 x y zs)
  then have "py_join '' '' (y # zs) \<noteq> []" "\<not> is_space (last (py_join '' '' (y # zs)))"
    by simp_all
  moreover have "x \<noteq> []" "\<not> is_space (hd x)" using 3(3) by (cases x; simp add: word_ok_def)+
  ultimately show ?case by simp
qed

lemma strip_trimmed:
  assumes "s \<noteq> []" "\<not> is_space (hd s)" "\<not> is_space (last s)"
  shows "py_strip s = s"
proof -
  have 1: "dropWhile is_space s = s" using assms(1,2) by (cases s) simp_all
  have "rev s \<noteq> []" "\<not> is_space (hd (rev s))" using assms(1,3) by (simp_all add: hd_rev)
  then have 2: "dropWhile is_space (rev s) = rev s" by (cases "rev s") simp_all
  show ?thesis by (simp add: py_strip_def 1 2)
qed

lemma strip_join:
  assumes "\<forall>w \<in> set ws. word_ok w"
  shows "py_strip (py_join '' '' ws) = py_join '' '' ws"
proof (cases "ws = []")
  case True
  then show ?thesis by (simp add: py_strip_def)
next
  case False
  from join_ends [OF assms False] show ?thesis by (intro strip_trimmed) simp_all
qed

lemma wrap_test_line:
  assumes "\<forall>w \<in> set cs. word_ok w" "word_ok w"
  shows "py_strip (py_join '' '' cs @ '' '' @ w) = py_join '' '' (cs @ [w])"
proof (cases "cs = []")
  case True
  then show ?thesis using strip_blank_word [OF assms(2)] by simp
next
  case False
  have "py_join '' '' cs @ '' '' @ w = py_join '' '' (cs @ [w])"
    by (rule join_snoc [OF False])
  moreover have "py_strip (py_join '' '' (cs @ [w])) = py_join '' '' (cs @ [w])"
    by (rule strip_join) (use assms in auto)
  ultimately show ?thesis by simp
qed

lemma join_nonempty:
  "\<forall>w \<in> set cs. word_ok w \<Longrightarrow> (py_join '' '' cs = [] \<longleftrightarrow> cs = [])"
  using join_ends [of cs] by auto

lemma wrap_loop_words:
  assumes "\<forall>w \<in> set ws. word_ok w" "\<forall>w \<in> set cs. word_ok w"
  shows "concat (map py_split (wrap_loop ts pad max_w ws lines (py_join '' '' cs)))
         = concat (map py_split lines) @ cs @ ws"
  using assms
proof (induction ws arbitrary: lines cs)
  case Nil
  then show ?case by (cases "cs = []") (simp_all add: join_nonempty py_split_join)
next
  case (Cons w ws)
  have w: "word_ok w" and ws: "\<forall>w \<in> set ws. word_ok w" using Cons.prems(1) by simp_all
  have t: "py_strip (py_join '' '' cs @ CHR '' '' # w) = py_join '' '' (cs @ [w])"
    using wrap_test_line [OF Cons.prems(2) w] by simp
  have je: "py_join '' '' cs = [] \<longleftrightarrow> cs = []"
    by (rule join_nonempty [OF Cons.prems(2)])
  have step: "wrap_loop ts pad max_w (w # ws) lines (py_join '' '' cs) =
      (if fst (ts (py_join '' '' (cs @ [w]))) \<le> max_w - pad * 2
       then wrap_loop ts pad max_w ws lines (py_join '' '' (cs @ [w]))
       else wrap_loop ts pad max_w ws (if cs \<noteq> [] then lines @ [py_join '' '' cs] else lines)
              (py_join '' '' [w]))"
    by (simp add: t je Let_def)
  have a: "concat (map py_split (wrap_loop ts pad max_w ws lines (py_join '' '' (cs @ [w]))))
         = concat (map py_split lines) @ (cs @ [w]) @ ws"
    by (rule Cons.IH [OF ws]) (use Cons.prems(2) w in auto)
  have b: "concat (map py_split (wrap_loop ts pad max_w ws lines' (py_join '' '' [w])))
         = concat (map py_split lines') @ [w] @ ws" for lines'
    by (rule Cons.IH [OF ws]) (use w in simp)
  show ?case
  proof (cases "fst (ts (py_join '' '' (cs @ [w]))) \<le> max_w - pad * 2")
    case True
    then show ?thesis unfolding step using a by simp
  next
    case False
    show ?thesis
    proof (cases "cs = []")
      case True
      then show ?thesis unfolding step using False b [of lines] by simp
    next
      case ne: False
      then show ?thesis
        unfolding step using False b [of "lines @ [py_join '' '' cs]"] Cons.prems(2)
        by (simp add: py_split_join)
    qed
  qed
qed

lemma wrap_text_words:
  "concat (map py_split (wrap_text ts pad txt max_w)) = py_split txt"
  using wrap_loop_words [of "py_split txt" "[]" ts pad max_w "[]"] py_split_tokens [of _ "txt"]
  by (simp add: wrap_text_def)

text \<open>
  C5 (the code departs from it): the claim wraps at \<open>panel_width - 2 * edge_padding\<close>.
  \<^verbatim>\<open>render_text_panel\<close> passes that width as \<^verbatim>\<open>max_w\<close>, and \<^verbatim>\<open>wrap_text\<close> takes
  the padding off once more. On the panel of 960 pixels with a padding of 48 and
  characters of 20 pixels, a title of 40 characters is 800 pixels wide and within
  \<open>960 - 2 * 48 = 864\<close>, yet it is broken into two lines. The rest of the claim holds:
  the loop is a structural recursion over the words, the lines hold the words of the
  input in their order (\<open>wrap_text_words\<close>), and a single word is a line of its own
  whatever its width (\<open>wrap_text_single_word\<close>).
\<close>

theorem wrap_text_pads_twice:
  "wrap_text (mono 20) 48 ''aaaaaaaaaaaaaaaaaaaa bbbbbbbbbbbbbbbbbbb'' (960 - 2 * 48)
     = [''aaaaaaaaaaaaaaaaaaaa'', ''bbbbbbbbbbbbbbbbbbb'']
   \<and> fst (mono 20 ''aaaaaaaaaaaaaaaaaaaa bbbbbbbbbbbbbbbbbbb'') = 800
   \<and> (800 :: int) \<le> 960 - 2 * 48
   \<and> render_text_panel test_env ''aaaaaaaaaaaaaaaaaaaa bbbbbbbbbbbbbbbbbbb'' [] app_cfg
     = Inr (draw_text (draw_text (Image 960 960 (Solid (RGBA 255 255 255 0)))
               (48, 48) ''aaaaaaaaaaaaaaaaaaaa'' (RGBA 0 0 0 255) TitleFont)
               (48, 98) ''bbbbbbbbbbbbbbbbbbb'' (RGBA 0 0 0 255) TitleFont)"
  by code_simp

section \<open>No slides\<close>

text \<open>
  C7: when the logo loads (or there is none) and no slide remains, because
  \<^verbatim>\<open>max_slides\<close> is not positive or because every row is skipped, has an empty image
  reference or a barcode-like file name, the run prints the message that begins with
  \<^verbatim>\<open>No slides to render\<close> and exits with status 1; no video is written. These are the
  cases in which the loop ends with no slide (\<open>slides_loop_empty_iff\<close>).
\<close>

theorem no_slides_exit:
  assumes "load_logo e c = Inr logo"
    and "max_slides c \<le> 0 \<or> (\<forall>r \<in> set rows. row_excluded c r)"
  shows "main e c rows = SysExit 1 no_slides_message
       \<and> py_in ''No slides to render'' no_slides_message"
proof -
  have "slides_loop e c logo rows [] = Inr []"
    by (rule slides_loop_excluded) (use assms(2) in simp)
  moreover have "py_in ''No slides to render'' no_slides_message"
    by (simp add: no_slides_message_def)
  ultimately show ?thesis using assms(1) by (simp add: main_def)
qed

theorem no_slides_exit_witness:
  "load_logo test_env app_cfg = Inr None
   \<and> row_excluded app_cfg row_skip
   \<and> main test_env app_cfg [row_skip, row_skip] = SysExit 1 no_slides_message"
proof -
  have l: "load_logo test_env app_cfg = Inr None" by code_simp
  have r: "row_excluded app_cfg row_skip" by code_simp
  then have x: "max_slides app_cfg \<le> 0 \<or> (\<forall>r \<in> set [row_skip, row_skip]. row_excluded app_cfg r)"
    by simp
  from no_slides_exit [OF l x] l r show ?thesis by simp
qed

section \<open>Skip flags\<close>

text \<open>
  C10: a row is skipped exactly when the string form of its skip cell, stripped and in
  lower case, is one of \<^verbatim>\<open>1\<close>, \<^verbatim>\<open>true\<close>, \<^verbatim>\<open>yes\<close>, \<^verbatim>\<open>y\<close>. Below the cap of
  \<^verbatim>\<open>max_slides\<close> a skipped row leaves the list of slides as it is; a row that is not
  skipped, with an image reference that is not empty and not barcode-like, is built. A
  cell \<^verbatim>\<open>0\<close>, \<^verbatim>\<open>false\<close> or \<^verbatim>\<open>no\<close>, or no skip cell at all, does not skip the row.
\<close>

theorem skip_flag_values:
  "(row_skipped c r \<longleftrightarrow>
      py_lower (py_strip (row_str r (get_or (skip_col c) ''skip''))) \<in> {''1'', ''true'', ''yes'', ''y''})
   \<and> (int (length slides) < max_slides c \<and> row_skipped c r \<longrightarrow>
        slides_loop e c logo (r # rows) slides = slides_loop e c logo rows slides)
   \<and> (int (length slides) < max_slides c \<and> \<not> row_skipped c r \<and> row_image_file c r \<noteq> []
        \<and> \<not> looks_like_barcode c (row_image_file c r) \<longrightarrow>
        slides_loop e c logo (r # rows) slides =
          (case slide_of_row e c logo r (row_image_file c r) of
             Inl err \<Rightarrow> Inl err
           | Inr cl \<Rightarrow> slides_loop e c logo rows (slides @ [cl])))
   \<and> (r (get_or (skip_col c) ''skip'') \<in> {None, Some (CStr ''0''), Some (CStr ''false''), Some (CStr ''no'')}
        \<longrightarrow> \<not> row_skipped c r)"
proof -
  have a: "row_skipped c r \<longleftrightarrow>
      py_lower (py_strip (row_str r (get_or (skip_col c) ''skip''))) \<in> {''1'', ''true'', ''yes'', ''y''}"
    by (simp add: row_skipped_def skip_words_def)
  have b: "int (length slides) < max_slides c \<and> row_skipped c r \<longrightarrow>
        slides_loop e c logo (r # rows) slides = slides_loop e c logo rows slides"
    by simp
  have d: "int (length slides) < max_slides c \<and> \<not> row_skipped c r \<and> row_image_file c r \<noteq> []
        \<and> \<not> looks_like_barcode c (row_image_file c r) \<longrightarrow>
        slides_loop e c logo (r # rows) slides =
          (case slide_of_row e c logo r (row_image_file c r) of
             Inl err \<Rightarrow> Inl err
           | Inr cl \<Rightarrow> slides_loop e c logo rows (slides @ [cl]))"
    by simp
  have e1: "py_lower (py_strip []) = []" "py_lower (py_strip ''0'') = ''0''"
    "py_lower (py_strip ''false'') = ''false''" "py_lower (py_strip ''no'') = ''no''"
    by code_simp+
  have f: "r (get_or (skip_col c) ''skip'') \<in> {None, Some (CStr ''0''), Some (CStr ''false''), Some (CStr ''no'')}
        \<longrightarrow> \<not> row_skipped c r"
    by (auto simp: row_skipped_def skip_words_def row_str_def e1)
  from a b d f show ?thesis by blast
qed

theorem skip_flag_values_witness:
  "row_skipped app_cfg row_skip
   \<and> int (length ([] :: clip list)) < max_slides app_cfg
   \<and> slides_loop test_env app_cfg None [row_skip, row_a] [] = slides_loop test_env app_cfg None [row_a] []
   \<and> \<not> row_skipped app_cfg row_a \<and> row_image_file app_cfg row_a \<noteq> []
   \<and> \<not> looks_like_barcode app_cfg (row_image_file app_cfg row_a)
   \<and> slides_loop test_env app_cfg None [row_a] [] =
        (case slide_of_row test_env app_cfg None row_a (row_image_file app_cfg row_a) of
           Inl err \<Rightarrow> Inl err
         | Inr cl \<Rightarrow> slides_loop test_env app_cfg None [] ([] @ [cl]))
   \<and> row_missing (get_or (skip_col app_cfg) ''skip'') = None
   \<and> \<not> row_skipped app_cfg row_missing"
proof -
  have h: "row_skipped app_cfg row_skip" "int (length ([] :: clip list)) < max_slides app_cfg"
    "\<not> row_skipped app_cfg row_a" "row_image_file app_cfg row_a \<noteq> []"
    "\<not> looks_like_barcode app_cfg (row_image_file app_cfg row_a)"
    "row_missing (get_or (skip_col app_cfg) ''skip'') = None"
    by code_simp+
  note t1 = skip_flag_values [of app_cfg row_skip "[]" test_env None "[row_a]"]
  note t2 = skip_flag_values [of app_cfg row_a "[]" test_env None "[]"]
  note t3 = skip_flag_values [of app_cfg row_missing "[]" test_env None "[]"]
  from t1 h have 1: "slides_loop test_env app_cfg None [row_skip, row_a] [] = slides_loop test_env app_cfg None [row_a] []"
    by blast
  from t2 h have 2: "slides_loop test_env app_cfg None [row_a] [] =
        (case slide_of_row test_env app_cfg None row_a (row_image_file app_cfg row_a) of
           Inl err \<Rightarrow> Inl err
         | Inr cl \<Rightarrow> slides_loop test_env app_cfg None [] ([] @ [cl]))"
    by blast
  from t3 have "row_missing (get_or (skip_col app_cfg) ''skip'')
        \<in> {None, Some (CStr ''0''), Some (CStr ''false''), Some (CStr ''no'')}
      \<longrightarrow> \<not> row_skipped app_cfg row_missing"
    by blast
  then have 3: "\<not> row_skipped app_cfg row_missing" by (simp add: h(6))
  from h 1 2 3 show ?thesis by blast
qed

section \<open>Audio\<close>



section \<open>Missing product image\<close>

text \<open>
  C9 (the code departs from it). For an image file that cannot be opened the \<^verbatim>\<open>except\<close>
  branch makes the gray bitmap of 800 by 800 pixels with the text \<^verbatim>\<open>Missing image:\<close> and,
  on the next line, the name of the file, and this bitmap, enlarged to 1000 by 1000 and
  fitted to the pane of 864 by 864, is the product layer of the slide. But the slide is
  not built: \<^verbatim>\<open>build_slide_clip\<close> raises \<^verbatim>\<open>TypeError\<close> where it composes the layers, and
  the run on the row of the missing image and a row with a good image raises
  \<^verbatim>\<open>TypeError\<close>.
\<close>

theorem missing_image_slide_raises:
  "image_open test_env ''images/gone.png'' = None
   \<and> open_product_image test_env ''images/gone.png''
       = Image 800 800 (DrawText (Image 800 800 (Solid (RGBA 230 230 230 255))) 40 40
           (''Missing image:'' @ [CHR 0x0A] @ ''gone.png'') (RGBA 80 80 80 255) DefaultFont)
   \<and> map_option clip_image
        (slide_layer 2 (slide_layers test_env ''images/gone.png'' ''Lost'' [] app_cfg None))
       = Some (Image 864 864 (Resampled (Image 1000 1000 (Resampled
           (open_product_image test_env ''images/gone.png'')))))
   \<and> build_slide_clip test_env ''images/gone.png'' ''Lost'' [] app_cfg None = Inl TypeError
   \<and> path_join (images_folder app_cfg) (row_image_file app_cfg row_missing) = ''images/gone.png''
   \<and> main test_env app_cfg [row_missing, row_a] = Raised TypeError"
proof -
  have a: "image_open test_env ''images/gone.png'' = None" by (simp add: test_env_simps)
  have b0: "open_product_image test_env ''images/gone.png'' = missing_image ''images/gone.png''"
    by (simp add: open_product_image_def test_env_simps)
  have b1: "missing_image ''images/gone.png''
       = Image 800 800 (DrawText (Image 800 800 (Solid (RGBA 230 230 230 255))) 40 40
           (''Missing image:'' @ [CHR 0x0A] @ ''gone.png'') (RGBA 80 80 80 255) DefaultFont)"
    by code_simp
  from slide_layers_missing [of "''Lost''" "[]"]
  obtain layers where l: "slide_layers test_env ''images/gone.png'' ''Lost'' [] app_cfg None = Inr layers"
    and l2: "map_option clip_image (slide_layer 2 (Inr layers))
       = Some (Image 864 864 (Resampled (Image 1000 1000 (Resampled (missing_image ''images/gone.png'')))))"
    by (auto simp: slide_layer_def image_clip_def)
  have d: "map_option clip_image
        (slide_layer 2 (slide_layers test_env ''images/gone.png'' ''Lost'' [] app_cfg None))
       = Some (Image 864 864 (Resampled (Image 1000 1000 (Resampled
           (open_product_image test_env ''images/gone.png'')))))"
    by (simp only: l l2 b0)
  have f: "build_slide_clip test_env ''images/gone.png'' ''Lost'' [] app_cfg None = Inl TypeError"
    using l by (rule build_slide_clip_TypeError)
  have g: "path_join (images_folder app_cfg) (row_image_file app_cfg row_missing) = ''images/gone.png''"
    by (rule test_rows)
  obtain layers' where "slide_layers test_env ''images/gone.png''
      (py_strip (row_str row_missing (title_col app_cfg)))
      (filter (\<lambda>v. v \<noteq> []) (map (\<lambda>col. py_strip (row_str row_missing col)) (bullets_cols app_cfg)))
      app_cfg None = Inr layers'"
    using slide_layers_missing by blast
  then have h: "main test_env app_cfg [row_missing, row_a] = Raised TypeError"
    by (intro main_first_row_raises [where logo = None and layers = layers'])
       (simp_all add: test_rows)
  from a b0 b1 d f g h show ?thesis by simp
qed

section \<open>Bullet clamping\<close>

text \<open>
  C6 (as amended): for every string \<open>s\<close> and every \<open>max_words = k\<close> that is not negative, the
  clamped result has at most \<open>k\<close> whitespace-delimited tokens, and clamping the result again
  with the same \<open>k\<close> returns it unchanged.
\<close>

theorem clamp_words_bounded_idempotent:
  assumes "0 \<le> k"
  shows "int (length (py_split (clamp_words s k))) \<le> k
       \<and> clamp_words (Some (clamp_words s k)) k = clamp_words s k"
proof -
  have "slice_to (slice_to xs k) k = slice_to xs k" for xs :: "string list"
    using assms by (simp add: slice_to_def)
  moreover have "int (length (slice_to xs k)) \<le> k" for xs :: "string list"
    using assms by (simp add: slice_to_def)
  ultimately show ?thesis
    by (simp add: clamp_words_tokens)
       (simp add: clamp_words_def clamp_words_tokens[unfolded clamp_words_def Let_def])
qed

theorem clamp_words_bounded_idempotent_witness:
  "(0::int) \<le> 2
   \<and> clamp_words (Some ''one  two three'') 2 = ''one two''
   \<and> int (length (py_split (clamp_words (Some ''one  two three'') 2))) \<le> 2
   \<and> clamp_words (Some (clamp_words (Some ''one  two three'') 2)) 2
       = clamp_words (Some ''one  two three'') 2"
  using clamp_words_bounded_idempotent [of 2 "Some ''one  two three''"]
  by (simp add: clamp_words_def py_split_def slice_to_def is_space_def)

text \<open>
  With \<open>max_words = -1\<close> the slice \<^verbatim>\<open>toks[:-1]\<close> drops the last token only: the result of
  \<^verbatim>\<open>"a b c"\<close> has two tokens, and clamping it again gives \<^verbatim>\<open>"a"\<close>.
\<close>

theorem clamp_words_negative_counterexample:
  "\<not> (int (length (py_split (clamp_words (Some ''a b c'') (- 1)))) \<le> - 1
      \<and> clamp_words (Some (clamp_words (Some ''a b c'') (- 1))) (- 1)
          = clamp_words (Some ''a b c'') (- 1))"
  by (simp add: clamp_words_def py_split_def slice_to_def is_space_def)

section \<open>Easing\<close>





end
